theory Spec2Isabelle
  imports Main "HOL-Library.AList"
begin

section \<open>Protocol: message taxonomy (common/protocol.go)\<close>

text \<open>
  In the Go source \<open>MessageType\<close>, \<open>UserStatus\<close> and \<open>RoomAction\<close> are named string
  types, and a decoded frame may carry any string in these fields. They are strings here
  as well; the constants below are the ones the source declares.
\<close>

type_synonym MessageType = string
type_synonym UserStatus = string
type_synonym RoomAction = string

definition TypeText :: MessageType where "TypeText = ''TEXT''"
definition TypeFile :: MessageType where "TypeFile = ''FILE''"
definition TypeFileChunk :: MessageType where "TypeFileChunk = ''FILE_CHUNK''"
definition TypeFileComplete :: MessageType where "TypeFileComplete = ''FILE_COMPLETE''"
definition TypeStatus :: MessageType where "TypeStatus = ''STATUS''"
definition TypeRoom :: MessageType where "TypeRoom = ''ROOM''"
definition TypeInvite :: MessageType where "TypeInvite = ''INVITE''"
definition TypeInviteResp :: MessageType where "TypeInviteResp = ''INVITE_RESP''"
definition TypeUserList :: MessageType where "TypeUserList = ''USER_LIST''"
definition TypeError :: MessageType where "TypeError = ''ERROR''"
definition TypeConnect :: MessageType where "TypeConnect = ''CONNECT''"
definition TypeDisconnect :: MessageType where "TypeDisconnect = ''DISCONNECT''"
definition TypeAck :: MessageType where "TypeAck = ''ACK''"

definition StatusActive :: UserStatus where "StatusActive = ''ACTIVE''"
definition StatusBusy :: UserStatus where "StatusBusy = ''BUSY''"
definition StatusInvisible :: UserStatus where "StatusInvisible = ''INVISIBLE''"

definition RoomCreate :: RoomAction where "RoomCreate = ''CREATE''"
definition RoomJoin :: RoomAction where "RoomJoin = ''JOIN''"
definition RoomLeave :: RoomAction where "RoomLeave = ''LEAVE''"
definition RoomLeaveConfirm :: RoomAction where "RoomLeaveConfirm = ''LEAVE_CONFIRM''"
definition RoomMsg :: RoomAction where "RoomMsg = ''MSG''"
definition RoomMembers :: RoomAction where "RoomMembers = ''MEMBERS''"
definition RoomKick :: RoomAction where "RoomKick = ''KICK''"
definition RoomDelete :: RoomAction where "RoomDelete = ''DELETE''"
definition RoomSetTopic :: RoomAction where "RoomSetTopic = ''TOPIC''"

text \<open>
  The \<open>Message\<close> struct. \<open>Timestamp\<close> is a point of the clock in nanoseconds; integer
  fields are only stored and compared, never computed with, so they are \<open>int\<close>.
  \<open>Data\<close> is a byte string.
\<close>

record Message =
  Type :: MessageType
  Sender :: string
  Recipient :: string
  Room :: string
  Content :: string
  Status :: UserStatus
  Action :: RoomAction
  Filename :: string
  Filesize :: int
  FileID :: string
  ChunkNum :: int
  TotalChunks :: int
  Data :: string
  Users :: "string list"
  Timestamp :: int
  Error :: string

text \<open>The zero value of the struct (\<open>&common.Message{}\<close>, every field omitted).\<close>

definition Message0 :: Message where
  "Message0 = \<lparr>Type = [], Sender = [], Recipient = [], Room = [], Content = [],
     Status = [], Action = [], Filename = [], Filesize = 0, FileID = [], ChunkNum = 0,
     TotalChunks = 0, Data = [], Users = [], Timestamp = 0, Error = []\<rparr>"

definition NewTextMessage :: "int \<Rightarrow> string \<Rightarrow> string \<Rightarrow> string \<Rightarrow> Message" where
  "NewTextMessage now sender recipient content =
     Message0\<lparr>Type := TypeText, Sender := sender, Recipient := recipient,
       Content := content, Timestamp := now\<rparr>"

definition NewBroadcastMessage :: "int \<Rightarrow> string \<Rightarrow> string \<Rightarrow> Message" where
  "NewBroadcastMessage now sender content =
     Message0\<lparr>Type := TypeText, Sender := sender, Recipient := ''*'',
       Content := content, Timestamp := now\<rparr>"

definition NewErrorMessage :: "int \<Rightarrow> string \<Rightarrow> string \<Rightarrow> string \<Rightarrow> Message" where
  "NewErrorMessage now sender recipient err =
     Message0\<lparr>Type := TypeError, Sender := sender, Recipient := recipient,
       Error := err, Timestamp := now\<rparr>"

text \<open>The \<open>FileTransfer\<close> struct; \<open>ReceivedChunks\<close> is a Go map from chunk index to
  payload, kept as an association list with distinct keys (\<open>AList.update\<close> overwrites
  an existing key), so its length is Go's \<open>len\<close> of the map.\<close>

record FileTransfer =
  ftFileID :: string
  ftFilename :: string
  ftFilesize :: int
  ftSender :: string
  ftRecipient :: string
  ftTotalChunks :: int
  ReceivedChunks :: "(int \<times> string) list"
  StartTime :: int

definition AddChunk :: "FileTransfer \<Rightarrow> int \<Rightarrow> string \<Rightarrow> FileTransfer" where
  "AddChunk ft chunkNum d = ft\<lparr>ReceivedChunks := AList.update chunkNum d (ReceivedChunks ft)\<rparr>"

definition IsComplete :: "FileTransfer \<Rightarrow> bool" where
  "IsComplete ft = (int (length (ReceivedChunks ft)) = ftTotalChunks ft)"

section \<open>Constants (package common)\<close>

definition Second :: int where "Second = 1000000000"
definition Minute :: int where "Minute = 60 * Second"

definition MaxConnections :: int where "MaxConnections = 100"
definition MaxConnectionsPerIP :: int where "MaxConnectionsPerIP = 5"
definition MaxMessageSize :: nat where "MaxMessageSize = 4096"
definition MaxNicknameLength :: nat where "MaxNicknameLength = 20"
definition MinNicknameLength :: nat where "MinNicknameLength = 3"
definition MaxRoomNameLength :: nat where "MaxRoomNameLength = 30"
definition MinRoomNameLength :: nat where "MinRoomNameLength = 3"
definition MaxFileSize :: int where "MaxFileSize = 100 * 1024 * 1024"
definition MaxFileNameLength :: nat where "MaxFileNameLength = 255"
definition MessagesPerSecond :: int where "MessagesPerSecond = 10"
definition RoomsPerUser :: int where "RoomsPerUser = 5"
definition FileTransfersPerUser :: int where "FileTransfersPerUser = 3"
definition FileTransferTimeout :: int where "FileTransferTimeout = 5 * Minute"
definition EmptyRoomTimeout :: int where "EmptyRoomTimeout = 30 * Minute"

section \<open>Validator (server/validator.go)\<close>

text \<open>Go strings are byte strings and \<open>len\<close> counts bytes, as \<open>length\<close> does on
  \<open>string\<close>. A validator returns \<open>None\<close> for \<open>nil\<close> and \<open>Some text\<close> for an error.\<close>

definition isAlnum :: "char \<Rightarrow> bool" where
  "isAlnum c = (let n = (of_char c :: nat) in
     (97 \<le> n \<and> n \<le> 122) \<or> (65 \<le> n \<and> n \<le> 90) \<or> (48 \<le> n \<and> n \<le> 57))"

text \<open>\<open>NicknamePattern = "^[a-zA-Z0-9_-]+$"\<close> and
  \<open>RoomNamePattern = "^[a-zA-Z0-9_\\- ]+$"\<close>: a non-empty text of characters of the class.\<close>

definition nicknameRegex :: "string \<Rightarrow> bool" where
  "nicknameRegex s = (s \<noteq> [] \<and> list_all (\<lambda>c. isAlnum c \<or> c = CHR ''_'' \<or> c = CHR ''-'') s)"

definition roomNameRegex :: "string \<Rightarrow> bool" where
  "roomNameRegex s = (s \<noteq> [] \<and>
     list_all (\<lambda>c. isAlnum c \<or> c = CHR ''_'' \<or> c = CHR ''-'' \<or> c = CHR '' '') s)"

definition ValidateNickname :: "string \<Rightarrow> string option" where
  "ValidateNickname nickname =
     (if length nickname < MinNicknameLength then
        Some ''nickname must be at least 3 characters long''
      else if length nickname > MaxNicknameLength then
        Some ''nickname cannot exceed 20 characters''
      else if \<not> nicknameRegex nickname then
        Some ''nickname can only contain letters, numbers, underscores, and hyphens''
      else None)"

text \<open>\<open>strings.TrimSpace\<close> on the ASCII white space characters (tab, line feed, vertical
  tab, form feed, carriage return, space).\<close>

definition isSpace :: "char \<Rightarrow> bool" where
  "isSpace c = (let n = (of_char c :: nat) in (9 \<le> n \<and> n \<le> 13) \<or> n = 32)"

definition TrimSpace :: "string \<Rightarrow> string" where
  "TrimSpace s = rev (dropWhile isSpace (rev (dropWhile isSpace s)))"

definition ValidateRoomName :: "string \<Rightarrow> string option" where
  "ValidateRoomName roomName0 =
     (let roomName = TrimSpace roomName0 in
      if length roomName < MinRoomNameLength then
        Some ''room name must be at least 3 characters long''
      else if length roomName > MaxRoomNameLength then
        Some ''room name cannot exceed 30 characters''
      else if \<not> roomNameRegex roomName then
        Some ''room name can only contain letters, numbers, underscores, hyphens, and spaces''
      else None)"

definition ValidateMessage :: "string \<Rightarrow> string option" where
  "ValidateMessage content =
     (if length content = 0 then Some ''message cannot be empty''
      else if length content > MaxMessageSize then
        Some ''message cannot exceed 4096 characters''
      else None)"

subsection \<open>The string helpers of the filename check\<close>

definition HasPrefix :: "string \<Rightarrow> string \<Rightarrow> bool" where
  "HasPrefix s p = (take (length p) s = p)"

fun Contains :: "string \<Rightarrow> string \<Rightarrow> bool" where
  "Contains [] sub = (sub = [])"
| "Contains (c # cs) sub = (HasPrefix (c # cs) sub \<or> Contains cs sub)"

definition ContainsAny :: "string \<Rightarrow> string \<Rightarrow> bool" where
  "ContainsAny s chars = list_ex (\<lambda>c. c \<in> set chars) s"

text \<open>
  \<open>filepath.Clean\<close> of the Go standard library, for the separator \<open>/\<close>: the lexical
  loop over the path with its output buffer \<open>out\<close> and the index \<open>dotdot\<close> below which
  the buffer is not backtracked. \<open>rest\<close> is the part of the path from index \<open>r\<close> on.
\<close>

function backtrack :: "string \<Rightarrow> nat \<Rightarrow> nat \<Rightarrow> nat" where
  "backtrack out dotdot w =
     (if w > dotdot \<and> out ! w \<noteq> CHR ''/'' then backtrack out dotdot (w - 1) else w)"
  by pat_completeness auto
termination
  by (relation "measure (\<lambda>(out, dotdot, w). w)") auto

function Clean_loop :: "bool \<Rightarrow> string \<Rightarrow> string \<Rightarrow> nat \<Rightarrow> string" where
  "Clean_loop rooted rest out dotdot =
     (case rest of
        [] \<Rightarrow> out
      | c # cs \<Rightarrow>
          if c = CHR ''/'' then Clean_loop rooted cs out dotdot
          else if c = CHR ''.'' \<and> (cs = [] \<or> hd cs = CHR ''/'') then
            Clean_loop rooted cs out dotdot
          else if c = CHR ''.'' \<and> cs \<noteq> [] \<and> hd cs = CHR ''.'' \<and>
                  (tl cs = [] \<or> hd (tl cs) = CHR ''/'') then
            (if length out > dotdot then
               Clean_loop rooted (tl cs)
                 (take (backtrack out dotdot (length out - 1)) out) dotdot
             else if \<not> rooted then
               (let out' = (if length out > 0 then out @ ''/'' else out) @ ''..''
                in Clean_loop rooted (tl cs) out' (length out'))
             else Clean_loop rooted (tl cs) out dotdot)
          else
            (let out' = (if rooted \<and> length out \<noteq> 1 \<or> \<not> rooted \<and> length out \<noteq> 0
                         then out @ ''/'' else out)
             in Clean_loop rooted (dropWhile (\<lambda>x. x \<noteq> CHR ''/'') rest)
                  (out' @ takeWhile (\<lambda>x. x \<noteq> CHR ''/'') rest) dotdot))"
  by pat_completeness auto
termination
  apply (relation "measure (\<lambda>(rooted, rest, out, dotdot). length rest)")
  subgoal by simp
  subgoal by simp
  subgoal by simp
  subgoal by (unfold in_measure prod.case, hypsubst, simp (no_asm))
  subgoal by (unfold in_measure prod.case, hypsubst, simp (no_asm))
  subgoal by (unfold in_measure prod.case, hypsubst, simp (no_asm))
  subgoal for rooted rest out dotdot c cs
    using length_dropWhile_le [of "\<lambda>x. x \<noteq> CHR ''/''" cs]
    by (unfold in_measure prod.case, hypsubst, simp (no_asm_simp))
  done

declare Clean_loop.simps [simp del] backtrack.simps [simp del]

definition Clean :: "string \<Rightarrow> string" where
  "Clean path =
     (if path = [] then ''.''
      else
        let rooted = (hd path = CHR ''/'');
            out = (if rooted
                   then Clean_loop True (tl path) ''/'' 1
                   else Clean_loop False path [] 0)
        in if out = [] then ''.'' else out)"

definition ValidateFileName :: "string \<Rightarrow> string option" where
  "ValidateFileName filename =
     (if length filename = 0 then Some ''filename cannot be empty''
      else if length filename > MaxFileNameLength then
        Some ''filename cannot exceed 255 characters''
      else
        let cleanPath = Clean filename in
        if Contains cleanPath ''..'' \<or> ContainsAny cleanPath [CHR ''/'', CHR 0x5C] then
          Some ''filename cannot contain path separators or parent directory references''
        else if HasPrefix filename ''.'' then Some ''hidden files are not allowed''
        else None)"

definition ValidateFileSize :: "int \<Rightarrow> string option" where
  "ValidateFileSize sz =
     (if sz \<le> 0 then Some ''file size must be positive''
      else if sz > MaxFileSize then Some ''file size cannot exceed 104857600 bytes''
      else None)"

section \<open>Rate limiter (server/validator.go)\<close>

text \<open>
  The limiter's Go maps are partial maps; reading a missing key of a \<open>map[string]int\<close>
  gives 0 (\<open>count\<close>). The counters are bounded by the limits they are checked against,
  so they are \<open>int\<close>. Time is the clock in nanoseconds.
\<close>

record userRateLimit =
  messages :: int
  lastReset :: int

record RateLimiter =
  totalConnections :: int
  connectionsByIP :: "string \<rightharpoonup> int"
  messageRates :: "string \<rightharpoonup> userRateLimit"
  roomsPerUser :: "string \<rightharpoonup> int"
  transfersPerUser :: "string \<rightharpoonup> int"

definition NewRateLimiter :: RateLimiter where
  "NewRateLimiter = \<lparr>totalConnections = 0, connectionsByIP = Map.empty,
     messageRates = Map.empty, roomsPerUser = Map.empty, transfersPerUser = Map.empty\<rparr>"

definition count :: "(string \<rightharpoonup> int) \<Rightarrow> string \<Rightarrow> int" where
  "count m k = (case m k of None \<Rightarrow> 0 | Some n \<Rightarrow> n)"

text \<open>
  \<open>net.SplitHostPort\<close> on the text of a connection's remote address, \<open>host:port\<close> or
  \<open>[host]:port\<close>: the host up to the last colon, brackets removed; an address with no
  colon, or with a colon in an unbracketed host, is an error. \<open>net.ResolveTCPAddr\<close> of
  the text of a literal address gives that address back.
\<close>

definition SplitHostPort :: "string \<Rightarrow> (string \<times> string) option" where
  "SplitHostPort hostport =
     (if CHR '':'' \<notin> set hostport then None
      else
        let port = rev (takeWhile (\<lambda>c. c \<noteq> CHR '':'') (rev hostport));
            host = rev (tl (dropWhile (\<lambda>c. c \<noteq> CHR '':'') (rev hostport)))
        in if host \<noteq> [] \<and> hd host = CHR ''['' then
             (if last host = CHR '']'' then Some (butlast (tl host), port) else None)
           else if CHR '':'' \<in> set host then None
           else Some (host, port))"

definition hostOf :: "string \<Rightarrow> string" where
  "hostOf addr = (case SplitHostPort addr of None \<Rightarrow> [] | Some (ip, port) \<Rightarrow> ip)"

definition ResolveTCPAddr :: "string \<Rightarrow> string option" where
  "ResolveTCPAddr addr = (case SplitHostPort addr of None \<Rightarrow> None | Some hp \<Rightarrow> Some addr)"

definition CanConnect :: "RateLimiter \<Rightarrow> string \<Rightarrow> string option" where
  "CanConnect rl addr =
     (if totalConnections rl \<ge> MaxConnections then
        Some ''server has reached maximum connection limit (100)''
      else case SplitHostPort addr of
        None \<Rightarrow> Some ''invalid address format''
      | Some (ip, port) \<Rightarrow>
          if count (connectionsByIP rl) ip \<ge> MaxConnectionsPerIP then
            Some (''IP '' @ ip @ '' has reached maximum connection limit (5)'')
          else None)"

definition AddConnection :: "RateLimiter \<Rightarrow> string \<Rightarrow> RateLimiter" where
  "AddConnection rl addr =
     (let ip = hostOf addr in
      rl\<lparr>totalConnections := totalConnections rl + 1,
         connectionsByIP := (connectionsByIP rl)(ip \<mapsto> count (connectionsByIP rl) ip + 1)\<rparr>)"

definition decr :: "(string \<rightharpoonup> int) \<Rightarrow> string \<Rightarrow> (string \<rightharpoonup> int)" where
  "decr m k =
     (let c = count m k in
      if c > 0 then (if c = 1 then m(k := None) else m(k \<mapsto> c - 1)) else m)"

definition RemoveConnection :: "RateLimiter \<Rightarrow> string \<Rightarrow> RateLimiter" where
  "RemoveConnection rl addr =
     (let rl1 = (if totalConnections rl > 0
                 then rl\<lparr>totalConnections := totalConnections rl - 1\<rparr> else rl)
      in rl1\<lparr>connectionsByIP := decr (connectionsByIP rl1) (hostOf addr)\<rparr>)"

text \<open>\<open>CanSendMessage\<close> returns the error (if any) and the limiter it leaves behind.\<close>

definition CanSendMessage :: "RateLimiter \<Rightarrow> string \<Rightarrow> int \<Rightarrow> string option \<times> RateLimiter" where
  "CanSendMessage rl nickname now =
     (let userLimit = (case messageRates rl nickname of
                         None \<Rightarrow> \<lparr>messages = 0, lastReset = now\<rparr>
                       | Some u \<Rightarrow> u);
          userLimit1 = (if now - lastReset userLimit \<ge> Second
                        then userLimit\<lparr>messages := 0, lastReset := now\<rparr> else userLimit)
      in if messages userLimit1 \<ge> MessagesPerSecond then
           (Some ''message rate limit exceeded (10 messages per second)'',
            rl\<lparr>messageRates := (messageRates rl)(nickname \<mapsto> userLimit1)\<rparr>)
         else
           (None,
            rl\<lparr>messageRates := (messageRates rl)
               (nickname \<mapsto> userLimit1\<lparr>messages := messages userLimit1 + 1\<rparr>)\<rparr>))"

definition CanCreateRoom :: "RateLimiter \<Rightarrow> string \<Rightarrow> string option" where
  "CanCreateRoom rl nickname =
     (if count (roomsPerUser rl) nickname \<ge> RoomsPerUser
      then Some ''room creation limit exceeded (5 rooms per user)'' else None)"

definition AddRoom_rl :: "RateLimiter \<Rightarrow> string \<Rightarrow> RateLimiter" where
  "AddRoom_rl rl nickname =
     rl\<lparr>roomsPerUser := (roomsPerUser rl)(nickname \<mapsto> count (roomsPerUser rl) nickname + 1)\<rparr>"

definition CanStartFileTransfer :: "RateLimiter \<Rightarrow> string \<Rightarrow> string option" where
  "CanStartFileTransfer rl nickname =
     (if count (transfersPerUser rl) nickname \<ge> FileTransfersPerUser
      then Some ''file transfer limit exceeded (3 concurrent transfers per user)'' else None)"

definition AddFileTransfer :: "RateLimiter \<Rightarrow> string \<Rightarrow> RateLimiter" where
  "AddFileTransfer rl nickname =
     rl\<lparr>transfersPerUser :=
          (transfersPerUser rl)(nickname \<mapsto> count (transfersPerUser rl) nickname + 1)\<rparr>"

definition RemoveFileTransfer :: "RateLimiter \<Rightarrow> string \<Rightarrow> RateLimiter" where
  "RemoveFileTransfer rl nickname =
     rl\<lparr>transfersPerUser := decr (transfersPerUser rl) nickname\<rparr>"

definition RemoveUser :: "RateLimiter \<Rightarrow> string \<Rightarrow> RateLimiter" where
  "RemoveUser rl nickname =
     rl\<lparr>messageRates := (messageRates rl)(nickname := None),
        roomsPerUser := (roomsPerUser rl)(nickname := None),
        transfersPerUser := (transfersPerUser rl)(nickname := None)\<rparr>"

section \<open>Client session (server/client.go)\<close>

text \<open>
  A \<open>*Client\<close> is an object shared between the nickname registry and the handlers, so
  clients live in a store indexed by a session number and the registry holds session
  numbers. \<open>SendChan\<close> is the buffered channel of capacity 256: \<open>Some q\<close> with the
  messages waiting in it, \<open>None\<close> once \<open>Close\<close> has set it to \<open>nil\<close>. \<open>Rooms\<close> is the
  key set of the Go map, in insertion order.
\<close>

record Client =
  Nickname :: string
  RemoteAddr :: string
  cStatus :: UserStatus
  Rooms :: "string list"
  SendChan :: "Message list option"
  ConnClosed :: bool

definition NewClient :: Client where
  "NewClient = \<lparr>Nickname = [], RemoteAddr = [], cStatus = StatusActive, Rooms = [],
     SendChan = Some [], ConnClosed = False\<rparr>"

definition setAdd :: "string \<Rightarrow> string list \<Rightarrow> string list" where
  "setAdd k ks = (if k \<in> set ks then ks else ks @ [k])"

definition AddRoom :: "Client \<Rightarrow> string \<Rightarrow> Client" where
  "AddRoom c roomID = c\<lparr>Rooms := setAdd roomID (Rooms c)\<rparr>"

definition RemoveRoom :: "Client \<Rightarrow> string \<Rightarrow> Client" where
  "RemoveRoom c roomID = c\<lparr>Rooms := removeAll roomID (Rooms c)\<rparr>"

text \<open>\<open>SendMessage\<close> is a non-blocking send: a full (or nil) channel drops the message.\<close>

definition SendMessage :: "Client \<Rightarrow> Message \<Rightarrow> Client" where
  "SendMessage c msg =
     (case SendChan c of
        None \<Rightarrow> c
      | Some q \<Rightarrow> if length q < 256 then c\<lparr>SendChan := Some (q @ [msg])\<rparr> else c)"

definition Close :: "Client \<Rightarrow> Client" where
  "Close c = c\<lparr>SendChan := None, ConnClosed := True\<rparr>"


section \<open>Rooms (server/room.go)\<close>

record Room =
  rID :: string
  rName :: string
  Description :: string
  Creator :: string
  Members :: "string list"
  Invitations :: "string list"
  CreatedAt :: int

definition NewRoom :: "string \<Rightarrow> int \<Rightarrow> string \<Rightarrow> string \<Rightarrow> Room" where
  "NewRoom newID now name creator =
     \<lparr>rID = newID, rName = name, Description = [], Creator = creator,
      Members = [creator], Invitations = [], CreatedAt = now\<rparr>"

definition AddMember :: "Room \<Rightarrow> string \<Rightarrow> Room" where
  "AddMember r nickname =
     r\<lparr>Members := setAdd nickname (Members r),
       Invitations := removeAll nickname (Invitations r)\<rparr>"

definition RemoveMember :: "Room \<Rightarrow> string \<Rightarrow> Room" where
  "RemoveMember r nickname = r\<lparr>Members := removeAll nickname (Members r)\<rparr>"

definition IsMember :: "Room \<Rightarrow> string \<Rightarrow> bool" where
  "IsMember r nickname = (nickname \<in> set (Members r))"

definition InviteUser :: "Room \<Rightarrow> string \<Rightarrow> Room" where
  "InviteUser r nickname = r\<lparr>Invitations := setAdd nickname (Invitations r)\<rparr>"

definition IsInvited :: "Room \<Rightarrow> string \<Rightarrow> bool" where
  "IsInvited r nickname = (nickname \<in> set (Invitations r))"

section \<open>Server state and fan-out (server/main.go, server/room.go)\<close>

text \<open>
  The registries are association lists in insertion order (\<open>sync.Map\<close> and Go maps
  promise no order; the lists fix one). \<open>clients\<close> maps a nickname to the session number
  of the \<open>*Client\<close> stored under it; \<open>heap\<close> holds the client objects; \<open>nclients\<close>
  is the number of client objects created so far.
\<close>

record Server =
  clients :: "(string \<times> nat) list"
  rooms :: "(string \<times> Room) list"
  fileTransfers :: "(string \<times> FileTransfer) list"
  rateLimiter :: RateLimiter
  heap :: "nat \<Rightarrow> Client"
  nclients :: nat

definition NewServer :: Server where
  "NewServer = \<lparr>clients = [], rooms = [], fileTransfers = [],
     rateLimiter = NewRateLimiter, heap = (\<lambda>cid. NewClient), nclients = 0\<rparr>"

definition GetClient :: "Server \<Rightarrow> string \<Rightarrow> nat option" where
  "GetClient s nickname = map_of (clients s) nickname"

definition GetRoom :: "Server \<Rightarrow> string \<Rightarrow> Room option" where
  "GetRoom s roomID = map_of (rooms s) roomID"

definition updClient :: "Server \<Rightarrow> nat \<Rightarrow> (Client \<Rightarrow> Client) \<Rightarrow> Server" where
  "updClient s cid f = s\<lparr>heap := (heap s)(cid := f (heap s cid))\<rparr>"

definition updRoom :: "Server \<Rightarrow> string \<Rightarrow> Room \<Rightarrow> Server" where
  "updRoom s roomID r = s\<lparr>rooms := AList.update roomID r (rooms s)\<rparr>"

definition sendTo :: "Server \<Rightarrow> nat \<Rightarrow> Message \<Rightarrow> Server" where
  "sendTo s cid msg = updClient s cid (\<lambda>c. SendMessage c msg)"

definition sendError :: "Server \<Rightarrow> nat \<Rightarrow> int \<Rightarrow> string \<Rightarrow> string \<Rightarrow> Server" where
  "sendError s cid now recipient err = sendTo s cid (NewErrorMessage now ''Server'' recipient err)"

definition broadcastStep :: "Message \<Rightarrow> string \<Rightarrow> string \<times> nat \<Rightarrow> Server \<Rightarrow> Server" where
  "broadcastStep msg exclude kv s =
     (let client = heap s (snd kv) in
      if Nickname client = exclude then s
      else if cStatus client = StatusInvisible \<and> Sender msg \<noteq> Nickname client then s
      else sendTo s (snd kv) msg)"

definition BroadcastMessage :: "Server \<Rightarrow> Message \<Rightarrow> string \<Rightarrow> Server" where
  "BroadcastMessage s msg exclude = fold (broadcastStep msg exclude) (clients s) s"

definition userListOf :: "Server \<Rightarrow> string list" where
  "userListOf s =
     map (\<lambda>kv. Nickname (heap s (snd kv)) @ '':'' @ cStatus (heap s (snd kv)))
       (filter (\<lambda>kv. cStatus (heap s (snd kv)) \<noteq> StatusInvisible) (clients s))"

definition BroadcastUserList :: "Server \<Rightarrow> Server" where
  "BroadcastUserList s =
     BroadcastMessage s (Message0\<lparr>Type := TypeUserList, Users := userListOf s\<rparr>) []"

definition roomStep :: "Message \<Rightarrow> string \<Rightarrow> Server \<Rightarrow> Server" where
  "roomStep msg member s =
     (case GetClient s member of
        None \<Rightarrow> s
      | Some cid \<Rightarrow>
          if cStatus (heap s cid) = StatusInvisible \<and> member \<noteq> Sender msg then s
          else sendTo s cid msg)"

definition BroadcastToRoom :: "Server \<Rightarrow> string \<Rightarrow> Message \<Rightarrow> Server" where
  "BroadcastToRoom s roomID msg =
     (case GetRoom s roomID of
        None \<Rightarrow> s
      | Some room \<Rightarrow> fold (roomStep msg) (Members room) s)"

subsection \<open>Registration\<close>

text \<open>\<open>RegisterClient\<close> returns the error, \<open>None\<close> standing for \<open>(true, nil)\<close>.\<close>

definition RegisterClient :: "Server \<Rightarrow> nat \<Rightarrow> string \<Rightarrow> int \<Rightarrow> string option \<times> Server" where
  "RegisterClient s cid nickname now =
     (case ValidateNickname nickname of
        Some err \<Rightarrow> (Some err, s)
      | None \<Rightarrow>
          if GetClient s nickname \<noteq> None then
            (Some (''nickname '' @ [CHR 0x27] @ nickname @ [CHR 0x27] @ '' is already taken''), s)
          else
            let s1 = updClient s cid (\<lambda>c. c\<lparr>Nickname := nickname\<rparr>);
                s2 = s1\<lparr>clients := AList.update nickname cid (clients s1)\<rparr>;
                s3 = BroadcastUserList s2;
                welcomeMsg = NewTextMessage now ''Server'' nickname
                               (''Welcome to the chat, '' @ nickname @ ''!'');
                s4 = sendTo s3 cid welcomeMsg;
                announceMsg = NewBroadcastMessage now ''Server''
                                (nickname @ '' has joined the chat'');
                s5 = BroadcastMessage s4 announceMsg nickname
            in (None, s5))"

definition GetUserRooms :: "Server \<Rightarrow> string \<Rightarrow> string list" where
  "GetUserRooms s nickname = map fst (filter (\<lambda>kv. IsMember (snd kv) nickname) (rooms s))"

definition unregisterRoom :: "string \<Rightarrow> int \<Rightarrow> string \<Rightarrow> Server \<Rightarrow> Server" where
  "unregisterRoom nickname now roomID s =
     (case GetRoom s roomID of
        None \<Rightarrow> s
      | Some room \<Rightarrow>
          let s1 = updRoom s roomID (RemoveMember room nickname);
              leaveMsg = (NewTextMessage now ''Server'' []
                            (nickname @ '' has disconnected from the room''))\<lparr>Room := roomID\<rparr>
          in BroadcastToRoom s1 roomID leaveMsg)"

definition UnregisterClient :: "Server \<Rightarrow> nat \<Rightarrow> int \<Rightarrow> Server" where
  "UnregisterClient s cid now =
     (let nickname = Nickname (heap s cid) in
      if nickname = [] then s
      else
        let s1 = s\<lparr>clients := AList.delete nickname (clients s)\<rparr>;
            s2 = fold (unregisterRoom nickname now) (GetUserRooms s1 nickname) s1;
            disconnectMsg = NewBroadcastMessage now ''Server'' (nickname @ '' has left the chat'');
            s3 = BroadcastMessage s2 disconnectMsg [];
            s4 = BroadcastUserList s3;
            s5 = s4\<lparr>rateLimiter := RemoveUser (rateLimiter s4) nickname\<rparr>
        in if RemoteAddr (heap s5 cid) \<noteq> [] then
             (case ResolveTCPAddr (RemoteAddr (heap s5 cid)) of
                None \<Rightarrow> s5
              | Some addr \<Rightarrow> s5\<lparr>rateLimiter := RemoveConnection (rateLimiter s5) addr\<rparr>)
           else s5)"

text \<open>Accepting a connection (the body of the accept loop of \<open>Start\<close>, then
  \<open>handleNewConnection\<close>): the new client object gets the next session number.\<close>

definition handleNewConnection :: "Server \<Rightarrow> string \<Rightarrow> Server" where
  "handleNewConnection s addr =
     s\<lparr>rateLimiter := AddConnection (rateLimiter s) addr,
       heap := (heap s)(nclients s := NewClient\<lparr>RemoteAddr := addr\<rparr>),
       nclients := nclients s + 1\<rparr>"

definition accept :: "Server \<Rightarrow> string \<Rightarrow> Server" where
  "accept s addr =
     (case CanConnect (rateLimiter s) addr of
        Some err \<Rightarrow> s
      | None \<Rightarrow> handleNewConnection s addr)"

subsection \<open>Room actions (\<open>handleRoomMessage\<close>, one definition for each case of its switch)\<close>

definition quoted :: "string \<Rightarrow> string" where
  "quoted x = [CHR 0x27] @ x @ [CHR 0x27]"

fun Join :: "string list \<Rightarrow> string \<Rightarrow> string" where
  "Join [] sep = []"
| "Join [x] sep = x"
| "Join (x # y # xs) sep = x @ sep @ Join (y # xs) sep"

text \<open>\<open>newID\<close> is what \<open>common.GenerateID("room")\<close> returns (a time stamp and random
  bytes), \<open>now\<close> the reading of the clock.\<close>

definition roomCreate :: "Server \<Rightarrow> nat \<Rightarrow> Message \<Rightarrow> int \<Rightarrow> string \<Rightarrow> Server" where
  "roomCreate s cid msg now newID =
     (let nick = Nickname (heap s cid) in
      case CanCreateRoom (rateLimiter s) nick of
        Some err \<Rightarrow> sendError s cid now nick err
      | None \<Rightarrow>
          (case ValidateRoomName (Content msg) of
             Some err \<Rightarrow> sendError s cid now nick err
           | None \<Rightarrow>
               let room = NewRoom newID now (TrimSpace (Content msg)) nick;
                   s1 = updRoom s (rID room) room;
                   s2 = updClient s1 cid (\<lambda>c. AddRoom c (rID room));
                   s3 = s2\<lparr>rateLimiter := AddRoom_rl (rateLimiter s2) nick\<rparr>;
                   response = Message0\<lparr>Type := TypeRoom, Action := RoomCreate,
                     Room := rID room,
                     Content := ''Room '' @ quoted (rName room) @ '' created successfully''\<rparr>
               in sendTo s3 cid response))"

definition roomJoin :: "Server \<Rightarrow> nat \<Rightarrow> Message \<Rightarrow> int \<Rightarrow> Server" where
  "roomJoin s cid msg now =
     (let nick = Nickname (heap s cid) in
      case GetRoom s (Room msg) of
        None \<Rightarrow> sendError s cid now nick ''Room not found''
      | Some room \<Rightarrow>
          if \<not> IsMember room nick then
            let s1 = updRoom s (Room msg) (AddMember room nick);
                s2 = updClient s1 cid (\<lambda>c. AddRoom c (rID room));
                joinMsg = (NewTextMessage now ''Server'' []
                             (nick @ '' has joined the room''))\<lparr>Room := Room msg\<rparr>;
                s3 = BroadcastToRoom s2 (Room msg) joinMsg;
                response = Message0\<lparr>Type := TypeRoom, Action := RoomJoin, Room := rID room,
                  Content := ''Joined room '' @ quoted (rName room)\<rparr>
            in sendTo s3 cid response
          else s)"

definition roomLeave :: "Server \<Rightarrow> nat \<Rightarrow> Message \<Rightarrow> int \<Rightarrow> Server" where
  "roomLeave s cid msg now =
     (let nick = Nickname (heap s cid) in
      case GetRoom s (Room msg) of
        None \<Rightarrow> s
      | Some room \<Rightarrow>
          let s1 = updRoom s (Room msg) (RemoveMember room nick);
              s2 = updClient s1 cid (\<lambda>c. RemoveRoom c (Room msg));
              confirmMsg = Message0\<lparr>Type := TypeRoom, Action := RoomLeaveConfirm,
                Room := rID room, Content := rName room\<rparr>;
              s3 = sendTo s2 cid confirmMsg;
              leaveMsg = (NewTextMessage now ''Server'' []
                            (nick @ '' has left the room''))\<lparr>Room := Room msg\<rparr>
          in BroadcastToRoom s3 (Room msg) leaveMsg)"

definition memberEntry :: "Server \<Rightarrow> string \<Rightarrow> string" where
  "memberEntry s member =
     member @ '' ('' @
       (case GetClient s member of None \<Rightarrow> ''offline'' | Some mc \<Rightarrow> cStatus (heap s mc)) @ '')''"

definition roomMembers :: "Server \<Rightarrow> nat \<Rightarrow> Message \<Rightarrow> int \<Rightarrow> Server" where
  "roomMembers s cid msg now =
     (let nick = Nickname (heap s cid) in
      case GetRoom s (Room msg) of
        None \<Rightarrow> sendError s cid now nick ''Room not found''
      | Some room \<Rightarrow>
          if \<not> IsMember room nick then
            sendError s cid now nick ''You are not a member of this room''
          else
            let memberList = map (memberEntry s) (Members room);
                roomInfo0 = ''Room '' @ quoted (rName room);
                roomInfo = (if Description room \<noteq> []
                            then roomInfo0 @ '' (Topic: '' @ Description room @ '')''
                            else roomInfo0);
                response = Message0\<lparr>Type := TypeRoom, Action := RoomMembers, Room := rID room,
                  Content := roomInfo @ '' members: '' @ Join memberList '', ''\<rparr>
            in sendTo s cid response)"

definition roomKick :: "Server \<Rightarrow> nat \<Rightarrow> Message \<Rightarrow> int \<Rightarrow> Server" where
  "roomKick s cid msg now =
     (let nick = Nickname (heap s cid) in
      case GetRoom s (Room msg) of
        None \<Rightarrow> sendError s cid now nick ''Room not found''
      | Some room \<Rightarrow>
          if Creator room \<noteq> nick then
            sendError s cid now nick ''Only the room creator can kick members''
          else if \<not> IsMember room (Recipient msg) then
            sendError s cid now nick (Recipient msg @ '' is not a member of this room'')
          else if Recipient msg = nick then
            sendError s cid now nick ''You cannot kick yourself''
          else
            let s1 = updRoom s (Room msg) (RemoveMember room (Recipient msg));
                s2 = (case GetClient s1 (Recipient msg) of
                        None \<Rightarrow> s1
                      | Some kicked \<Rightarrow>
                          sendTo (updClient s1 kicked (\<lambda>c. RemoveRoom c (Room msg))) kicked
                            (Message0\<lparr>Type := TypeRoom, Action := RoomLeaveConfirm,
                               Room := rID room,
                               Content := ''You have been kicked from room '' @
                                 quoted (rName room)\<rparr>));
                kickNotifyMsg = (NewTextMessage now ''Server'' []
                    (Recipient msg @ '' has been kicked from the room by '' @ nick))
                    \<lparr>Room := Room msg\<rparr>;
                s3 = BroadcastToRoom s2 (Room msg) kickNotifyMsg;
                confirmMsg = NewTextMessage now ''Server'' nick
                    (Recipient msg @ '' has been kicked from the room'')
            in sendTo s3 cid confirmMsg)"

definition deleteStep :: "Message \<Rightarrow> Room \<Rightarrow> string \<Rightarrow> Server \<Rightarrow> Server" where
  "deleteStep msg room member s =
     (case GetClient s member of
        None \<Rightarrow> s
      | Some mc \<Rightarrow>
          sendTo (updClient s mc (\<lambda>c. RemoveRoom c (Room msg))) mc
            (Message0\<lparr>Type := TypeRoom, Action := RoomLeaveConfirm, Room := rID room,
               Content := ''Room '' @ quoted (rName room) @ '' has been deleted''\<rparr>))"

definition roomDelete :: "Server \<Rightarrow> nat \<Rightarrow> Message \<Rightarrow> int \<Rightarrow> Server" where
  "roomDelete s cid msg now =
     (let nick = Nickname (heap s cid) in
      case GetRoom s (Room msg) of
        None \<Rightarrow> sendError s cid now nick ''Room not found''
      | Some room \<Rightarrow>
          if Creator room \<noteq> nick then
            sendError s cid now nick ''Only the room creator can delete the room''
          else
            let deleteMsg = (NewTextMessage now ''Server'' []
                    (''Room '' @ quoted (rName room) @ '' has been deleted by the creator''))
                    \<lparr>Room := Room msg\<rparr>;
                s1 = BroadcastToRoom s (Room msg) deleteMsg;
                s2 = fold (deleteStep msg room) (Members room) s1;
                s3 = s2\<lparr>rooms := AList.delete (Room msg) (rooms s2)\<rparr>;
                confirmMsg = NewTextMessage now ''Server'' nick
                    (''Room '' @ quoted (rName room) @ '' has been deleted'')
            in sendTo s3 cid confirmMsg)"

definition roomSetTopic :: "Server \<Rightarrow> nat \<Rightarrow> Message \<Rightarrow> int \<Rightarrow> Server" where
  "roomSetTopic s cid msg now =
     (let nick = Nickname (heap s cid) in
      case GetRoom s (Room msg) of
        None \<Rightarrow> sendError s cid now nick ''Room not found''
      | Some room \<Rightarrow>
          if \<not> IsMember room nick then
            sendError s cid now nick ''You must be a member to set the room topic''
          else
            let s1 = updRoom s (Room msg) (room\<lparr>Description := Content msg\<rparr>);
                topicMsg = (NewTextMessage now ''Server'' []
                    (nick @ '' set the room topic to: '' @ Content msg))\<lparr>Room := Room msg\<rparr>;
                s2 = BroadcastToRoom s1 (Room msg) topicMsg;
                confirmMsg = NewTextMessage now ''Server'' nick ''Room topic updated''
            in sendTo s2 cid confirmMsg)"

definition handleRoomMessage :: "Server \<Rightarrow> nat \<Rightarrow> Message \<Rightarrow> int \<Rightarrow> string \<Rightarrow> Server" where
  "handleRoomMessage s cid msg now newID =
     (if Action msg = RoomCreate then roomCreate s cid msg now newID
      else if Action msg = RoomJoin then roomJoin s cid msg now
      else if Action msg = RoomLeave then roomLeave s cid msg now
      else if Action msg = RoomMembers then roomMembers s cid msg now
      else if Action msg = RoomKick then roomKick s cid msg now
      else if Action msg = RoomDelete then roomDelete s cid msg now
      else if Action msg = RoomSetTopic then roomSetTopic s cid msg now
      else s)"

subsection \<open>Invitations\<close>

definition handleInviteMessage :: "Server \<Rightarrow> nat \<Rightarrow> Message \<Rightarrow> int \<Rightarrow> Server" where
  "handleInviteMessage s cid msg now =
     (let nick = Nickname (heap s cid) in
      case GetRoom s (Room msg) of
        None \<Rightarrow> sendError s cid now nick ''Room not found''
      | Some room \<Rightarrow>
          if \<not> IsMember room nick then
            sendError s cid now nick ''You are not a member of this room''
          else
            (case GetClient s (Recipient msg) of
               None \<Rightarrow> sendError s cid now nick (''User '' @ Recipient msg @ '' not found'')
             | Some recipient \<Rightarrow>
                 let s1 = updRoom s (Room msg) (InviteUser room (Recipient msg));
                     inviteMsg = Message0\<lparr>Type := TypeInvite, Sender := nick,
                       Recipient := Recipient msg, Room := Room msg,
                       Content := nick @ '' invited you to join room '' @ quoted (rName room)\<rparr>;
                     s2 = sendTo s1 recipient inviteMsg;
                     confirmMsg = NewTextMessage now ''Server'' nick
                       (''Invitation sent to '' @ Recipient msg)
                 in sendTo s2 cid confirmMsg))"

definition handleInviteResponse :: "Server \<Rightarrow> nat \<Rightarrow> Message \<Rightarrow> int \<Rightarrow> Server" where
  "handleInviteResponse s cid msg now =
     (let nick = Nickname (heap s cid) in
      case GetRoom s (Room msg) of
        None \<Rightarrow> sendError s cid now nick ''Room no longer exists''
      | Some room \<Rightarrow>
          if Content msg = ''accept'' \<and> IsInvited room nick then
            let s1 = updRoom s (Room msg) (AddMember room nick);
                s2 = updClient s1 cid (\<lambda>c. AddRoom c (rID room));
                roomInfo = (if Description room \<noteq> []
                            then rName room @ '' - Topic: '' @ Description room
                            else rName room);
                response = Message0\<lparr>Type := TypeRoom, Action := RoomJoin, Room := rID room,
                  Content := roomInfo\<rparr>;
                s3 = sendTo s2 cid response;
                joinMsg = (NewTextMessage now ''Server'' []
                             (nick @ '' has joined the room''))\<lparr>Room := Room msg\<rparr>
            in BroadcastToRoom s3 (Room msg) joinMsg
          else if Content msg = ''decline'' then
            let s1 = updRoom s (Room msg)
                       (room\<lparr>Invitations := removeAll nick (Invitations room)\<rparr>);
                confirmMsg = NewTextMessage now ''Server'' nick ''Invitation declined''
            in sendTo s1 cid confirmMsg
          else s)"

subsection \<open>File transfers\<close>

definition handleFileTransferInit :: "Server \<Rightarrow> nat \<Rightarrow> Message \<Rightarrow> int \<Rightarrow> Server" where
  "handleFileTransferInit s cid msg now =
     (let nick = Nickname (heap s cid) in
      case CanStartFileTransfer (rateLimiter s) nick of
        Some err \<Rightarrow> sendError s cid now nick err
      | None \<Rightarrow>
          (case ValidateFileName (Filename msg) of
             Some err \<Rightarrow> sendError s cid now nick err
           | None \<Rightarrow>
               (case ValidateFileSize (Filesize msg) of
                  Some err \<Rightarrow> sendError s cid now nick err
                | None \<Rightarrow>
                    (case GetClient s (Recipient msg) of
                       None \<Rightarrow>
                         sendError s cid now nick (''User '' @ Recipient msg @ '' not found'')
                     | Some recipient \<Rightarrow>
                         let ft = \<lparr>ftFileID = FileID msg, ftFilename = Filename msg,
                               ftFilesize = Filesize msg, ftSender = nick,
                               ftRecipient = Recipient msg, ftTotalChunks = TotalChunks msg,
                               ReceivedChunks = [], StartTime = Timestamp msg\<rparr>;
                             s1 = s\<lparr>fileTransfers :=
                                    AList.update (FileID msg) ft (fileTransfers s)\<rparr>;
                             s2 = s1\<lparr>rateLimiter := AddFileTransfer (rateLimiter s1) nick\<rparr>
                         in sendTo s2 recipient msg))))"

definition handleFileChunk :: "Server \<Rightarrow> nat \<Rightarrow> Message \<Rightarrow> Server" where
  "handleFileChunk s cid msg =
     (case map_of (fileTransfers s) (FileID msg) of
        None \<Rightarrow> s
      | Some ft0 \<Rightarrow>
          let ft = AddChunk ft0 (ChunkNum msg) (Data msg);
              s1 = s\<lparr>fileTransfers := AList.update (FileID msg) ft (fileTransfers s)\<rparr>
          in case GetClient s1 (ftRecipient ft) of
               None \<Rightarrow> s1
             | Some recipient \<Rightarrow>
                 let s2 = sendTo s1 recipient msg in
                 if IsComplete ft then
                   let completeMsg = Message0\<lparr>Type := TypeFileComplete, FileID := FileID msg,
                         Filename := ftFilename ft\<rparr>;
                       s3 = sendTo s2 recipient completeMsg;
                       s4 = sendTo s3 cid completeMsg
                   in s4\<lparr>fileTransfers := AList.delete (FileID msg) (fileTransfers s4)\<rparr>
                 else s2)"

subsection \<open>The dispatcher\<close>

text \<open>\<open>HandleMessage\<close> returns the error it hands back to the read loop (\<open>None\<close> for
  \<open>nil\<close>) and the state it leaves. \<open>now\<close> is the reading of the clock while the frame
  is handled: the source calls \<open>time.Now()\<close> for each message it builds, the model uses
  one reading for the whole handler. A message built as a struct literal without a time
  stamp carries the zero time, which is 0 here.\<close>

definition handleConnect :: "Server \<Rightarrow> nat \<Rightarrow> Message \<Rightarrow> int \<Rightarrow> Server" where
  "handleConnect s cid msg now =
     (case RegisterClient s cid (Content msg) now of
        (None, s1) \<Rightarrow>
          sendTo s1 cid (NewTextMessage now ''Server'' (Sender msg) ''Connected successfully'')
      | (Some err, s1) \<Rightarrow>
          updClient (sendTo s1 cid (NewErrorMessage now ''Server'' (Sender msg) err)) cid
            (\<lambda>c. c\<lparr>ConnClosed := True\<rparr>))"

definition handleText :: "Server \<Rightarrow> nat \<Rightarrow> Message \<Rightarrow> int \<Rightarrow> Server" where
  "handleText s cid msg now =
     (let nick = Nickname (heap s cid) in
      case CanSendMessage (rateLimiter s) nick now of
        (Some err, rl) \<Rightarrow> sendError (s\<lparr>rateLimiter := rl\<rparr>) cid now (Sender msg) err
      | (None, rl) \<Rightarrow>
          let s1 = s\<lparr>rateLimiter := rl\<rparr> in
          (case ValidateMessage (Content msg) of
             Some err \<Rightarrow> sendError s1 cid now (Sender msg) err
           | None \<Rightarrow>
               if Recipient msg = ''*'' \<or> Recipient msg = [] then BroadcastMessage s1 msg []
               else if Room msg \<noteq> [] then
                 (case GetRoom s1 (Room msg) of
                    Some room \<Rightarrow>
                      if \<not> IsMember room nick then
                        sendError s1 cid now nick ''You are not a member of this room''
                      else BroadcastToRoom s1 (Room msg) msg
                  | None \<Rightarrow> sendError s1 cid now nick ''Room not found'')
               else
                 (case GetClient s1 (Recipient msg) of
                    Some recipient \<Rightarrow> sendTo (sendTo s1 recipient msg) cid msg
                  | None \<Rightarrow>
                      sendError s1 cid now (Sender msg)
                        (''User '' @ Recipient msg @ '' not found''))))"

definition handleStatus :: "Server \<Rightarrow> nat \<Rightarrow> Message \<Rightarrow> int \<Rightarrow> Server" where
  "handleStatus s cid msg now =
     (let s1 = updClient s cid (\<lambda>c. c\<lparr>cStatus := Status msg\<rparr>);
          s2 = BroadcastUserList s1;
          nick = Nickname (heap s2 cid);
          statusMsg = NewBroadcastMessage now ''Server'' (nick @ '' is now '' @ Status msg)
      in BroadcastMessage s2 statusMsg nick)"

definition HandleMessage ::
  "Server \<Rightarrow> nat \<Rightarrow> Message \<Rightarrow> int \<Rightarrow> string \<Rightarrow> string option \<times> Server" where
  "HandleMessage s cid msg now newID =
     (if Type msg = TypeConnect then (None, handleConnect s cid msg now)
      else if Type msg = TypeText then (None, handleText s cid msg now)
      else if Type msg = TypeStatus then (None, handleStatus s cid msg now)
      else if Type msg = TypeRoom then (None, handleRoomMessage s cid msg now newID)
      else if Type msg = TypeInvite then (None, handleInviteMessage s cid msg now)
      else if Type msg = TypeInviteResp then (None, handleInviteResponse s cid msg now)
      else if Type msg = TypeFile then (None, handleFileTransferInit s cid msg now)
      else if Type msg = TypeFileChunk then (None, handleFileChunk s cid msg)
      else (Some (''[VALIDATION] unknown message type: '' @ Type msg), s))"

subsection \<open>The read loop (server/client.go)\<close>

text \<open>One turn of the loop of \<open>ReadPump\<close> on a decoded frame: the sender and the time
  stamp are overwritten, the frame is dispatched, and an error of the dispatcher is sent
  back. \<open>ReadPump_exit\<close> is the deferred part that runs when the loop ends.\<close>

definition ReadPump_frame :: "Server \<Rightarrow> nat \<Rightarrow> Message \<Rightarrow> int \<Rightarrow> string \<Rightarrow> Server" where
  "ReadPump_frame s cid frame now newID =
     (let msg = frame\<lparr>Sender := Nickname (heap s cid), Timestamp := now\<rparr> in
      case HandleMessage s cid msg now newID of
        (None, s1) \<Rightarrow> s1
      | (Some err, s1) \<Rightarrow> sendError s1 cid now (Nickname (heap s1 cid)) err)"

definition ReadPump_exit :: "Server \<Rightarrow> nat \<Rightarrow> int \<Rightarrow> Server" where
  "ReadPump_exit s cid now = updClient (UnregisterClient s cid now) cid Close"

section \<open>Cleanup scheduler (server/cleanup.go)\<close>

definition stale :: "int \<Rightarrow> FileTransfer \<Rightarrow> bool" where
  "stale now ft = (now - StartTime ft > FileTransferTimeout)"

definition cleanupStep :: "int \<Rightarrow> string \<times> FileTransfer \<Rightarrow> Server \<Rightarrow> Server" where
  "cleanupStep now kv s =
     (let ft = snd kv in
      if stale now ft then
        let s1 = (case GetClient s (ftSender ft) of
                    None \<Rightarrow> s
                  | Some sender \<Rightarrow>
                      sendError s sender now (ftSender ft)
                        (''File transfer timed out: '' @ ftFilename ft));
            s2 = (case GetClient s1 (ftRecipient ft) of
                    None \<Rightarrow> s1
                  | Some recipient \<Rightarrow>
                      sendError s1 recipient now (ftRecipient ft)
                        (''File transfer timed out: '' @ ftFilename ft))
        in s2\<lparr>rateLimiter := RemoveFileTransfer (rateLimiter s2) (ftSender ft)\<rparr>
      else s)"

definition cleanupFileTransfers :: "Server \<Rightarrow> int \<Rightarrow> Server" where
  "cleanupFileTransfers s now =
     (let toDelete = map fst (filter (\<lambda>kv. stale now (snd kv)) (fileTransfers s));
          s1 = fold (cleanupStep now) (fileTransfers s) s
      in s1\<lparr>fileTransfers := fold AList.delete toDelete (fileTransfers s1)\<rparr>)"

definition cleanupEmptyRooms :: "Server \<Rightarrow> int \<Rightarrow> Server" where
  "cleanupEmptyRooms s now =
     (let toDelete = map fst (filter (\<lambda>kv. length (Members (snd kv)) = 0 \<and>
                                 now - CreatedAt (snd kv) > EmptyRoomTimeout) (rooms s))
      in s\<lparr>rooms := fold AList.delete toDelete (rooms s)\<rparr>)"

section \<open>Auxiliary notions for the statements\<close>

text \<open>A registered client receives a broadcast unless it is the excluded nickname or it
  is invisible and not the sender (the two tests of the loop of \<open>BroadcastMessage\<close>).\<close>

definition eligible :: "Message \<Rightarrow> string \<Rightarrow> Client \<Rightarrow> bool" where
  "eligible msg exclude c =
     (Nickname c \<noteq> exclude \<and> \<not> (cStatus c = StatusInvisible \<and> Sender msg \<noteq> Nickname c))"

text \<open>The number of messages the limiter admits when \<open>CanSendMessage\<close> is called for
  one nickname at the times \<open>ts\<close>, one call after the other.\<close>

fun accepted :: "RateLimiter \<Rightarrow> string \<Rightarrow> int list \<Rightarrow> nat" where
  "accepted rl nickname [] = 0"
| "accepted rl nickname (t # ts) =
     (case CanSendMessage rl nickname t of
        (None, rl1) \<Rightarrow> Suc (accepted rl1 nickname ts)
      | (Some err, rl1) \<Rightarrow> accepted rl1 nickname ts)"

text \<open>What waits in a client's channel.\<close>

definition pending :: "Client \<Rightarrow> Message list" where
  "pending c = (case SendChan c of None \<Rightarrow> [] | Some q \<Rightarrow> q)"

section \<open>Scenarios\<close>

text \<open>
  Concrete runs of the model, used to evaluate the code at explicit inputs. \<open>drained\<close>
  is the state once every write loop has taken all waiting messages off its channel.
  Alice connects from 10.0.0.1 (session 0) and Bob from 10.0.0.2 (session 1).
\<close>

definition drained :: "Server \<Rightarrow> Server" where
  "drained s = s\<lparr>heap := (\<lambda>cid. (heap s cid)\<lparr>SendChan :=
     (case SendChan (heap s cid) of None \<Rightarrow> None | Some q \<Rightarrow> Some [])\<rparr>)\<rparr>"

definition connectFrame :: "string \<Rightarrow> Message" where
  "connectFrame nickname = Message0\<lparr>Type := TypeConnect, Content := nickname\<rparr>"

definition statusFrame :: Message where
  "statusFrame = Message0\<lparr>Type := TypeStatus, Status := StatusInvisible\<rparr>"

definition createFrame :: Message where
  "createFrame = Message0\<lparr>Type := TypeRoom, Action := RoomCreate, Content := ''proj''\<rparr>"

definition joinFrame :: Message where
  "joinFrame = Message0\<lparr>Type := TypeRoom, Action := RoomJoin, Room := ''room_1''\<rparr>"

definition fileFrame :: Message where
  "fileFrame = Message0\<lparr>Type := TypeFile, Recipient := ''bobby'', FileID := ''f1'',
     Filename := ''a.bin'', Filesize := 8192, TotalChunks := 1\<rparr>"

definition chunkFrame :: Message where
  "chunkFrame = Message0\<lparr>Type := TypeFileChunk, FileID := ''f1'', ChunkNum := 0, Data := ''x''\<rparr>"

definition srv_alice :: Server where
  "srv_alice = ReadPump_frame (accept NewServer ''10.0.0.1:5000'') 0 (connectFrame ''alice'') 0 []"

definition srv_a :: Server where
  "srv_a = drained srv_alice"

definition srv_ab :: Server where
  "srv_ab = drained (ReadPump_frame (accept srv_a ''10.0.0.2:5001'') 1 (connectFrame ''bobby'') 1 [])"

definition srv_reconnect :: Server where
  "srv_reconnect = ReadPump_frame srv_a 0 (connectFrame ''alicia'') 1 []"



definition srv_file :: Server where
  "srv_file = drained (ReadPump_frame srv_ab 0 fileFrame 2 [])"


definition clientA :: Client where
  "clientA = \<lparr>Nickname = ''alice'', RemoteAddr = ''10.0.0.1:5000'', cStatus = StatusActive,
     Rooms = [], SendChan = Some [], ConnClosed = False\<rparr>"

definition clientB :: Client where
  "clientB = \<lparr>Nickname = ''bobby'', RemoteAddr = ''10.0.0.2:5001'', cStatus = StatusActive,
     Rooms = [], SendChan = Some [], ConnClosed = False\<rparr>"


definition transfer1 :: FileTransfer where
  "transfer1 = \<lparr>ftFileID = ''f1'', ftFilename = ''a.bin'', ftFilesize = 8192,
     ftSender = ''alice'', ftRecipient = ''bobby'', ftTotalChunks = 1,
     ReceivedChunks = [], StartTime = 2\<rparr>"

definition textFrame :: Message where
  "textFrame = Message0\<lparr>Type := TypeText, Recipient := ''*'', Content := ''hi''\<rparr>"

text \<open>The limiter's entry for Alice after ten admitted messages in the window that
  started at time 0.\<close>

definition srv_limit :: Server where
  "srv_limit = srv_ab\<lparr>rateLimiter := (rateLimiter srv_ab)
     \<lparr>messageRates := [''alice'' \<mapsto> \<lparr>messages = 10, lastReset = 0\<rparr>]\<rparr>\<rparr>"

section \<open>Verification: the filename validator\<close>

lemmas proto_defs =
  TypeText_def TypeFile_def TypeFileChunk_def TypeFileComplete_def TypeStatus_def
  TypeRoom_def TypeInvite_def TypeInviteResp_def TypeUserList_def TypeError_def
  TypeConnect_def TypeDisconnect_def TypeAck_def
  StatusActive_def StatusBusy_def StatusInvisible_def
  RoomCreate_def RoomJoin_def RoomLeave_def RoomLeaveConfirm_def RoomMsg_def
  RoomMembers_def RoomKick_def RoomDelete_def RoomSetTopic_def

lemma Clean_loop_Nil: "Clean_loop rooted [] out dotdot = out"
  by (subst Clean_loop.simps) simp

text \<open>A non-empty path without a separator is a single element, and cleaning it gives
  it back (also for the elements \<open>.\<close> and \<open>..\<close>).\<close>

lemma Clean_no_slash:
  assumes "CHR ''/'' \<notin> set f" "f \<noteq> []"
  shows "Clean f = f"
proof -
  obtain c cs where f: "f = c # cs" using assms(2) by (cases f) auto
  have c: "c \<noteq> CHR ''/''" and cs: "CHR ''/'' \<notin> set cs" using assms(1) f by auto
  have tw: "takeWhile (\<lambda>x. x \<noteq> CHR ''/'') cs = cs"
    using cs by (auto simp: takeWhile_eq_all_conv)
  have dw: "dropWhile (\<lambda>x. x \<noteq> CHR ''/'') cs = []"
    using cs by (auto simp: dropWhile_eq_Nil_conv)
  have hd1: "cs \<noteq> [] \<Longrightarrow> hd cs \<noteq> CHR ''/''" using cs by (cases cs) auto
  have hd2: "cs \<noteq> [] \<Longrightarrow> tl cs \<noteq> [] \<Longrightarrow> hd (tl cs) \<noteq> CHR ''/''"
    using cs by (cases cs; cases "tl cs") auto
  have "Clean_loop False (c # cs) [] 0 = (if c = CHR ''.'' \<and> cs = [] then [] else c # cs)"
    apply (subst Clean_loop.simps)
    using c hd1 hd2 apply (simp add: Clean_loop_Nil tw dw Let_def)
    apply (cases cs; cases "tl cs")
       apply (auto simp: Clean_loop_Nil)
    done
  then show ?thesis using c by (simp add: Clean_def f)
qed

lemmas ValidateFileName_eval =
  ValidateFileName_def Clean_def MaxFileNameLength_def HasPrefix_def ContainsAny_def
  Clean_loop.simps

text \<open>
  C8, as stated, fails: the validator does not accept \<open>..evil\<close>. The cleaned path is
  \<open>..evil\<close> itself, it contains \<open>..\<close>, and the path traversal check rejects it.
\<close>

theorem ValidateFileName_dotdot_evil_rejected:
  "ValidateFileName ''..evil'' =
     Some ''filename cannot contain path separators or parent directory references''"
  by (simp add: ValidateFileName_eval)

text \<open>
  C8, amended: the validator rejects \<open>..evil\<close>, \<open>a/b\<close> and \<open>.hidden\<close> and accepts
  \<open>ok.txt\<close>; among the filenames without \<open>/\<close> it rejects exactly those that are empty,
  longer than 255 bytes, contain \<open>..\<close> anywhere, contain a backslash, or start with
  \<open>.\<close>.
\<close>

theorem ValidateFileName_verdicts:
  "ValidateFileName ''..evil'' \<noteq> None \<and> ValidateFileName ''a/b'' \<noteq> None \<and>
   ValidateFileName ''.hidden'' \<noteq> None \<and> ValidateFileName ''ok.txt'' = None \<and>
   (\<forall>f. CHR ''/'' \<notin> set f \<longrightarrow>
      (ValidateFileName f \<noteq> None \<longleftrightarrow>
         f = [] \<or> length f > 255 \<or> Contains f ''..'' \<or> CHR 0x5C \<in> set f \<or>
         HasPrefix f ''.''))"
proof -
  have 1: "ValidateFileName ''..evil'' \<noteq> None"
    by (simp add: ValidateFileName_eval)
  have 2: "ValidateFileName ''a/b'' \<noteq> None"
    by (simp add: ValidateFileName_eval)
  have 3: "ValidateFileName ''.hidden'' \<noteq> None"
    by (simp add: ValidateFileName_eval)
  have 4: "ValidateFileName ''ok.txt'' = None"
    by (simp add: ValidateFileName_eval)
  have 5: "ValidateFileName f \<noteq> None \<longleftrightarrow>
         f = [] \<or> length f > 255 \<or> Contains f ''..'' \<or> CHR 0x5C \<in> set f \<or> HasPrefix f ''.''"
    if "CHR ''/'' \<notin> set f" for f
  proof (cases "f = []")
    case True
    then show ?thesis by (simp add: ValidateFileName_def)
  next
    case False
    with that have "Clean f = f" by (rule Clean_no_slash)
    with that False show ?thesis
      by (auto simp: ValidateFileName_def MaxFileNameLength_def ContainsAny_def Let_def
          list_ex_iff)
  qed
  from 1 2 3 4 5 show ?thesis by blast
qed

theorem ValidateFileName_verdicts_witness:
  "CHR ''/'' \<notin> set ''a..b'' \<and> ValidateFileName ''a..b'' \<noteq> None \<and> Contains ''a..b'' ''..''"
  using ValidateFileName_verdicts
    [THEN conjunct2, THEN conjunct2, THEN conjunct2, THEN conjunct2, THEN spec, of "''a..b''"]
  by (simp add: HasPrefix_def)

section \<open>Verification: fan-out\<close>

lemma SendMessage_fields [simp]:
  "Nickname (SendMessage c m) = Nickname c"
  "cStatus (SendMessage c m) = cStatus c"
  "RemoteAddr (SendMessage c m) = RemoteAddr c"
  "Rooms (SendMessage c m) = Rooms c"
  "ConnClosed (SendMessage c m) = ConnClosed c"
  by (simp_all add: SendMessage_def split: option.splits)

lemma SendMessage_room:
  "SendChan c = Some q \<Longrightarrow> length q < 256 \<Longrightarrow> SendChan (SendMessage c m) = Some (q @ [m])"
  by (simp add: SendMessage_def)

lemma updClient_fields [simp]:
  "clients (updClient s cid f) = clients s"
  "rooms (updClient s cid f) = rooms s"
  "fileTransfers (updClient s cid f) = fileTransfers s"
  "rateLimiter (updClient s cid f) = rateLimiter s"
  "nclients (updClient s cid f) = nclients s"
  "heap (updClient s cid f) = (heap s)(cid := f (heap s cid))"
  by (simp_all add: updClient_def)

lemma sendTo_fields [simp]:
  "clients (sendTo s cid m) = clients s"
  "rooms (sendTo s cid m) = rooms s"
  "fileTransfers (sendTo s cid m) = fileTransfers s"
  "rateLimiter (sendTo s cid m) = rateLimiter s"
  "nclients (sendTo s cid m) = nclients s"
  "heap (sendTo s cid m) = (heap s)(cid := SendMessage (heap s cid) m)"
  by (simp_all add: sendTo_def)

lemma GetClient_sendTo [simp]: "GetClient (sendTo s cid m) = GetClient s"
  by (simp add: GetClient_def fun_eq_iff)

lemma GetRoom_sendTo [simp]: "GetRoom (sendTo s cid m) = GetRoom s"
  by (simp add: GetRoom_def fun_eq_iff)

lemma eligible_SendMessage [simp]: "eligible msg ex (SendMessage c m) = eligible msg ex c"
  by (simp add: eligible_def)

lemma broadcastStep_fields [simp]:
  "clients (broadcastStep msg ex kv s) = clients s"
  "rooms (broadcastStep msg ex kv s) = rooms s"
  "fileTransfers (broadcastStep msg ex kv s) = fileTransfers s"
  "rateLimiter (broadcastStep msg ex kv s) = rateLimiter s"
  "nclients (broadcastStep msg ex kv s) = nclients s"
  by (simp_all add: broadcastStep_def Let_def)

lemma broadcastStep_heap:
  "heap (broadcastStep msg ex kv s) cid =
     (if snd kv = cid \<and> eligible msg ex (heap s cid) then SendMessage (heap s cid) msg
      else heap s cid)"
  by (auto simp: broadcastStep_def Let_def eligible_def)

lemma broadcast_fold_fields [simp]:
  "clients (fold (broadcastStep msg ex) kvs s) = clients s"
  "rooms (fold (broadcastStep msg ex) kvs s) = rooms s"
  "fileTransfers (fold (broadcastStep msg ex) kvs s) = fileTransfers s"
  "rateLimiter (fold (broadcastStep msg ex) kvs s) = rateLimiter s"
  "nclients (fold (broadcastStep msg ex) kvs s) = nclients s"
  by (induction kvs arbitrary: s; simp)+

lemma broadcast_fold_heap:
  "heap (fold (broadcastStep msg ex) kvs s) cid =
     ((\<lambda>c. SendMessage c msg) ^^
        (if eligible msg ex (heap s cid) then count_list (map snd kvs) cid else 0)) (heap s cid)"
proof (induction kvs arbitrary: s)
  case Nil
  then show ?case by simp
next
  case (Cons kv kvs)
  have swap: "((\<lambda>c. SendMessage c msg) ^^ n) (SendMessage c msg) =
              SendMessage (((\<lambda>c. SendMessage c msg) ^^ n) c) msg" for n c
    using funpow_swap1 [of "\<lambda>c. SendMessage c msg" n c] by simp
  show ?case
    by (simp add: Cons.IH broadcastStep_heap swap)
qed

lemma BroadcastMessage_fields [simp]:
  "clients (BroadcastMessage s msg ex) = clients s"
  "rooms (BroadcastMessage s msg ex) = rooms s"
  "fileTransfers (BroadcastMessage s msg ex) = fileTransfers s"
  "rateLimiter (BroadcastMessage s msg ex) = rateLimiter s"
  "nclients (BroadcastMessage s msg ex) = nclients s"
  by (simp_all add: BroadcastMessage_def)


lemma BroadcastMessage_heap:
  "heap (BroadcastMessage s msg ex) cid =
     ((\<lambda>c. SendMessage c msg) ^^
        (if eligible msg ex (heap s cid) then count_list (map snd (clients s)) cid else 0))
       (heap s cid)"
  by (simp add: BroadcastMessage_def broadcast_fold_heap)


lemma BroadcastUserList_fields [simp]:
  "clients (BroadcastUserList s) = clients s"
  "rooms (BroadcastUserList s) = rooms s"
  "fileTransfers (BroadcastUserList s) = fileTransfers s"
  "rateLimiter (BroadcastUserList s) = rateLimiter s"
  "nclients (BroadcastUserList s) = nclients s"
  by (simp_all add: BroadcastUserList_def)


lemma funpow_SendMessage_fields [simp]:
  "Nickname (((\<lambda>c. SendMessage c m) ^^ n) c) = Nickname c"
  "cStatus (((\<lambda>c. SendMessage c m) ^^ n) c) = cStatus c"
  "RemoteAddr (((\<lambda>c. SendMessage c m) ^^ n) c) = RemoteAddr c"
  "Rooms (((\<lambda>c. SendMessage c m) ^^ n) c) = Rooms c"
  by (induction n; simp)+

lemma BroadcastMessage_ident [simp]:
  "Nickname (heap (BroadcastMessage s msg ex) cid) = Nickname (heap s cid)"
  "cStatus (heap (BroadcastMessage s msg ex) cid) = cStatus (heap s cid)"
  "RemoteAddr (heap (BroadcastMessage s msg ex) cid) = RemoteAddr (heap s cid)"
  "Rooms (heap (BroadcastMessage s msg ex) cid) = Rooms (heap s cid)"
  by (simp_all add: BroadcastMessage_heap)

lemma BroadcastUserList_ident [simp]:
  "Nickname (heap (BroadcastUserList s) cid) = Nickname (heap s cid)"
  "cStatus (heap (BroadcastUserList s) cid) = cStatus (heap s cid)"
  "RemoteAddr (heap (BroadcastUserList s) cid) = RemoteAddr (heap s cid)"
  "Rooms (heap (BroadcastUserList s) cid) = Rooms (heap s cid)"
  by (simp_all add: BroadcastUserList_def)

lemma roomStep_fields [simp]:
  "clients (roomStep msg m s) = clients s"
  "rooms (roomStep msg m s) = rooms s"
  "fileTransfers (roomStep msg m s) = fileTransfers s"
  "rateLimiter (roomStep msg m s) = rateLimiter s"
  "nclients (roomStep msg m s) = nclients s"
  "Nickname (heap (roomStep msg m s) cid) = Nickname (heap s cid)"
  "cStatus (heap (roomStep msg m s) cid) = cStatus (heap s cid)"
  "RemoteAddr (heap (roomStep msg m s) cid) = RemoteAddr (heap s cid)"
  "Rooms (heap (roomStep msg m s) cid) = Rooms (heap s cid)"
  by (simp_all add: roomStep_def split: option.splits)

lemma room_fold_fields [simp]:
  "clients (fold (roomStep msg) ms s) = clients s"
  "rooms (fold (roomStep msg) ms s) = rooms s"
  "fileTransfers (fold (roomStep msg) ms s) = fileTransfers s"
  "rateLimiter (fold (roomStep msg) ms s) = rateLimiter s"
  "nclients (fold (roomStep msg) ms s) = nclients s"
  "Nickname (heap (fold (roomStep msg) ms s) cid) = Nickname (heap s cid)"
  "cStatus (heap (fold (roomStep msg) ms s) cid) = cStatus (heap s cid)"
  "RemoteAddr (heap (fold (roomStep msg) ms s) cid) = RemoteAddr (heap s cid)"
  "Rooms (heap (fold (roomStep msg) ms s) cid) = Rooms (heap s cid)"
  by (induction ms arbitrary: s; simp)+

lemma BroadcastToRoom_fields [simp]:
  "clients (BroadcastToRoom s r msg) = clients s"
  "rooms (BroadcastToRoom s r msg) = rooms s"
  "fileTransfers (BroadcastToRoom s r msg) = fileTransfers s"
  "rateLimiter (BroadcastToRoom s r msg) = rateLimiter s"
  "nclients (BroadcastToRoom s r msg) = nclients s"
  "Nickname (heap (BroadcastToRoom s r msg) cid) = Nickname (heap s cid)"
  "cStatus (heap (BroadcastToRoom s r msg) cid) = cStatus (heap s cid)"
  "RemoteAddr (heap (BroadcastToRoom s r msg) cid) = RemoteAddr (heap s cid)"
  "Rooms (heap (BroadcastToRoom s r msg) cid) = Rooms (heap s cid)"
  by (simp_all add: BroadcastToRoom_def split: option.splits)

lemma updRoom_fields [simp]:
  "clients (updRoom s r x) = clients s"
  "fileTransfers (updRoom s r x) = fileTransfers s"
  "rateLimiter (updRoom s r x) = rateLimiter s"
  "nclients (updRoom s r x) = nclients s"
  "heap (updRoom s r x) = heap s"
  "rooms (updRoom s r x) = AList.update r x (rooms s)"
  by (simp_all add: updRoom_def)

lemma unregisterRoom_fields [simp]:
  "clients (unregisterRoom n now r s) = clients s"
  "fileTransfers (unregisterRoom n now r s) = fileTransfers s"
  "rateLimiter (unregisterRoom n now r s) = rateLimiter s"
  "nclients (unregisterRoom n now r s) = nclients s"
  "Nickname (heap (unregisterRoom n now r s) cid) = Nickname (heap s cid)"
  "cStatus (heap (unregisterRoom n now r s) cid) = cStatus (heap s cid)"
  "RemoteAddr (heap (unregisterRoom n now r s) cid) = RemoteAddr (heap s cid)"
  by (simp_all add: unregisterRoom_def Let_def split: option.splits)

lemma unregister_fold_fields [simp]:
  "clients (fold (unregisterRoom n now) rs s) = clients s"
  "fileTransfers (fold (unregisterRoom n now) rs s) = fileTransfers s"
  "rateLimiter (fold (unregisterRoom n now) rs s) = rateLimiter s"
  "nclients (fold (unregisterRoom n now) rs s) = nclients s"
  "Nickname (heap (fold (unregisterRoom n now) rs s) cid) = Nickname (heap s cid)"
  "cStatus (heap (fold (unregisterRoom n now) rs s) cid) = cStatus (heap s cid)"
  "RemoteAddr (heap (fold (unregisterRoom n now) rs s) cid) = RemoteAddr (heap s cid)"
  by (induction rs arbitrary: s; simp)+

section \<open>Verification: connection accounting\<close>

lemma UnregisterClient_unregistered:
  "Nickname (heap s cid) = [] \<Longrightarrow> UnregisterClient s cid now = s"
  by (simp add: UnregisterClient_def)

lemma UnregisterClient_rateLimiter:
  assumes "Nickname (heap s cid) \<noteq> []" "RemoteAddr (heap s cid) = addr" "SplitHostPort addr \<noteq> None"
  shows "rateLimiter (UnregisterClient s cid now) =
           RemoveConnection (RemoveUser (rateLimiter s) (Nickname (heap s cid))) addr"
proof -
  have "addr \<noteq> []" using assms(3) by (auto simp: SplitHostPort_def)
  with assms show ?thesis
    by (auto simp: UnregisterClient_def Let_def ResolveTCPAddr_def split: option.splits)
qed

lemma RegisterClient_rejected:
  "RegisterClient s cid nickname now = (Some err, s1) \<Longrightarrow> s1 = s"
  by (auto simp: RegisterClient_def Let_def split: option.splits if_splits)

lemma handleConnect_rejected:
  assumes "RegisterClient s cid (Content msg) now = (Some err, s1)"
  shows "Nickname (heap (handleConnect s cid msg now) cid) = Nickname (heap s cid)"
    and "rateLimiter (handleConnect s cid msg now) = rateLimiter s"
  using assms RegisterClient_rejected [OF assms] by (simp_all add: handleConnect_def)

text \<open>
  C9: accepting a connection adds one to the total and to the per-IP counter. When the
  session ends with an empty nickname, \<open>UnregisterClient\<close> returns at once and the
  exit path of the read loop leaves the limiter as it is: after an early disconnect, or
  after a rejected CONNECT, the counters still hold the increment of the accept. Only
  the exit of a session with a nickname takes one off both counters.
\<close>

theorem connection_counters:
  "totalConnections (rateLimiter (handleNewConnection s addr)) =
     totalConnections (rateLimiter s) + 1 \<and>
   count (connectionsByIP (rateLimiter (handleNewConnection s addr))) (hostOf addr) =
     count (connectionsByIP (rateLimiter s)) (hostOf addr) + 1 \<and>
   (Nickname (heap s cid) = [] \<longrightarrow>
      UnregisterClient s cid now = s \<and>
      rateLimiter (ReadPump_exit s cid now) = rateLimiter s) \<and>
   rateLimiter (ReadPump_exit (handleNewConnection s addr) (nclients s) now) =
     AddConnection (rateLimiter s) addr \<and>
   (fst (RegisterClient (handleNewConnection s addr) (nclients s) (Content msg) now) \<noteq> None \<longrightarrow>
      rateLimiter (ReadPump_exit
         (handleConnect (handleNewConnection s addr) (nclients s) msg now) (nclients s) now) =
        AddConnection (rateLimiter s) addr) \<and>
   (Nickname (heap s cid) \<noteq> [] \<and> SplitHostPort (RemoteAddr (heap s cid)) \<noteq> None \<and>
    0 < totalConnections (rateLimiter s) \<and>
    0 < count (connectionsByIP (rateLimiter s)) (hostOf (RemoteAddr (heap s cid))) \<longrightarrow>
      totalConnections (rateLimiter (ReadPump_exit s cid now)) =
        totalConnections (rateLimiter s) - 1 \<and>
      count (connectionsByIP (rateLimiter (ReadPump_exit s cid now)))
          (hostOf (RemoteAddr (heap s cid))) =
        count (connectionsByIP (rateLimiter s)) (hostOf (RemoteAddr (heap s cid))) - 1)"
proof -
  let ?s1 = "handleNewConnection s addr"
  let ?c = "nclients s"
  have new: "Nickname (heap ?s1 ?c) = []" and rl1: "rateLimiter ?s1 = AddConnection (rateLimiter s) addr"
    by (simp_all add: handleNewConnection_def NewClient_def)
  have 1: "totalConnections (rateLimiter ?s1) = totalConnections (rateLimiter s) + 1"
    by (simp add: handleNewConnection_def AddConnection_def Let_def)
  have 2: "count (connectionsByIP (rateLimiter ?s1)) (hostOf addr) =
     count (connectionsByIP (rateLimiter s)) (hostOf addr) + 1"
    by (simp add: handleNewConnection_def AddConnection_def Let_def count_def)
  have 3: "UnregisterClient s cid now = s \<and> rateLimiter (ReadPump_exit s cid now) = rateLimiter s"
    if "Nickname (heap s cid) = []"
    using that by (simp add: ReadPump_exit_def UnregisterClient_unregistered)
  have 5: "rateLimiter (ReadPump_exit ?s1 ?c now) = AddConnection (rateLimiter s) addr"
    using new rl1 by (simp add: ReadPump_exit_def UnregisterClient_unregistered)
  have 6: "rateLimiter (ReadPump_exit (handleConnect ?s1 ?c msg now) ?c now) =
        AddConnection (rateLimiter s) addr"
    if "fst (RegisterClient ?s1 ?c (Content msg) now) \<noteq> None"
  proof -
    from that obtain err s2 where r: "RegisterClient ?s1 ?c (Content msg) now = (Some err, s2)"
      by (cases "RegisterClient ?s1 ?c (Content msg) now") auto
    have "Nickname (heap (handleConnect ?s1 ?c msg now) ?c) = []"
      using handleConnect_rejected(1) [OF r] new by simp
    then show ?thesis
      using handleConnect_rejected(2) [OF r] rl1
      by (simp add: ReadPump_exit_def UnregisterClient_unregistered)
  qed
  have 4: "totalConnections (rateLimiter (ReadPump_exit s cid now)) = totalConnections (rateLimiter s) - 1 \<and>
      count (connectionsByIP (rateLimiter (ReadPump_exit s cid now))) (hostOf (RemoteAddr (heap s cid))) =
        count (connectionsByIP (rateLimiter s)) (hostOf (RemoteAddr (heap s cid))) - 1"
    if "Nickname (heap s cid) \<noteq> []" "SplitHostPort (RemoteAddr (heap s cid)) \<noteq> None"
       "0 < totalConnections (rateLimiter s)"
       "0 < count (connectionsByIP (rateLimiter s)) (hostOf (RemoteAddr (heap s cid)))"
    using that
    by (simp add: ReadPump_exit_def UnregisterClient_rateLimiter [OF that(1) refl that(2)]
        RemoveConnection_def RemoveUser_def decr_def Let_def count_def)
  from 1 2 3 4 5 6 show ?thesis by blast
qed

section \<open>Verification: the registration handshake\<close>




section \<open>Verification: TEXT frames and the message rate\<close>


lemma accepted_bound:
  "messageRates rl nick = Some u \<Longrightarrow> \<forall>t\<in>set ts. t - lastReset u < Second \<Longrightarrow>
   int (accepted rl nick ts) \<le> max 0 (MessagesPerSecond - messages u)"
proof (induction ts arbitrary: rl u)
  case Nil
  then show ?case by simp
next
  case (Cons t ts)
  have t: "\<not> Second \<le> t - lastReset u" using Cons.prems(2) by simp
  show ?case
  proof (cases "MessagesPerSecond \<le> messages u")
    case True
    let ?rl = "rl\<lparr>messageRates := (messageRates rl)(nick \<mapsto> u)\<rparr>"
    have c: "CanSendMessage rl nick t =
        (Some ''message rate limit exceeded (10 messages per second)'', ?rl)"
      using Cons.prems(1) t True by (simp add: CanSendMessage_def)
    have "int (accepted ?rl nick ts) \<le> max 0 (MessagesPerSecond - messages u)"
      using Cons.prems(2) by (intro Cons.IH) auto
    then show ?thesis by (simp add: c)
  next
    case False
    let ?u = "u\<lparr>messages := messages u + 1\<rparr>"
    let ?rl = "rl\<lparr>messageRates := (messageRates rl)(nick \<mapsto> ?u)\<rparr>"
    have c: "CanSendMessage rl nick t = (None, ?rl)"
      using Cons.prems(1) t False by (simp add: CanSendMessage_def)
    have "int (accepted ?rl nick ts) \<le> max 0 (MessagesPerSecond - messages ?u)"
      using Cons.prems(2) by (intro Cons.IH) auto
    then show ?thesis using False by (simp add: c)
  qed
qed

text \<open>
  C3, amended: the limiter counts in fixed windows. Within one counting window (all
  calls less than a second after the limiter's last reset for the nickname) at most 10
  TEXT messages of the nickname are admitted; a TEXT frame that arrives in the window
  when 10 are already counted is answered with an ERROR to the sender only, and no other
  session receives anything.
\<close>

theorem rate_limit_counting_window:
  "(messageRates rl nick = Some u \<and> 0 \<le> messages u \<and> (\<forall>t\<in>set ts. t - lastReset u < Second) \<longrightarrow>
      accepted rl nick ts \<le> 10) \<and>
   (Type frame = TypeText \<and> messageRates (rateLimiter s) (Nickname (heap s cid)) = Some v \<and>
    10 \<le> messages v \<and> now - lastReset v < Second \<longrightarrow>
      ReadPump_frame s cid frame now newID =
        sendTo s cid (NewErrorMessage now ''Server'' (Nickname (heap s cid))
                        ''message rate limit exceeded (10 messages per second)'') \<and>
      (\<forall>c. c \<noteq> cid \<longrightarrow> heap (ReadPump_frame s cid frame now newID) c = heap s c) \<and>
      (\<forall>q. SendChan (heap s cid) = Some q \<and> length q < 256 \<longrightarrow>
         SendChan (heap (ReadPump_frame s cid frame now newID) cid) =
           Some (q @ [NewErrorMessage now ''Server'' (Nickname (heap s cid))
                        ''message rate limit exceeded (10 messages per second)''])))"
proof -
  have a: "accepted rl nick ts \<le> 10"
    if "messageRates rl nick = Some u" "0 \<le> messages u" "\<forall>t\<in>set ts. t - lastReset u < Second"
    using accepted_bound [OF that(1,3)] that(2) by (simp add: MessagesPerSecond_def)
  let ?e = "NewErrorMessage now ''Server'' (Nickname (heap s cid))
                        ''message rate limit exceeded (10 messages per second)''"
  have b: "ReadPump_frame s cid frame now newID = sendTo s cid ?e"
    if "Type frame = TypeText" "messageRates (rateLimiter s) (Nickname (heap s cid)) = Some v"
       "10 \<le> messages v" "now - lastReset v < Second"
  proof -
    let ?msg = "frame\<lparr>Sender := Nickname (heap s cid), Timestamp := now\<rparr>"
    have ty: "Type ?msg \<noteq> TypeConnect" "Type ?msg = TypeText"
      using that(1) by (simp_all add: proto_defs)
    have "(messageRates (rateLimiter s))(Nickname (heap s cid) \<mapsto> v) = messageRates (rateLimiter s)"
      using that(2) by (rule map_upd_triv)
    then have "CanSendMessage (rateLimiter s) (Nickname (heap s cid)) now =
        (Some ''message rate limit exceeded (10 messages per second)'', rateLimiter s)"
      using that by (simp add: CanSendMessage_def MessagesPerSecond_def)
    then show ?thesis
      using ty by (simp add: ReadPump_frame_def HandleMessage_def handleText_def sendError_def)
  qed
  show ?thesis
    using a b by (auto simp: SendMessage_def)
qed

text \<open>
  C3, as stated, fails: after a first message at time 0, nine messages at 0.5 s and two
  at 1.0 s are all admitted, eleven messages within half a second (the counter is reset
  at 1.0 s).
\<close>

theorem rate_limit_rolling_window_exceeded:
  "1000000000 - 500000000 < Second \<and>
   accepted (snd (CanSendMessage NewRateLimiter ''alice'' 0)) ''alice''
     (replicate 9 500000000 @ [1000000000, 1000000000]) = 11"
  by (simp add: CanSendMessage_def NewRateLimiter_def Second_def MessagesPerSecond_def
      eval_nat_numeral)

section \<open>Verification: joining a room\<close>

lemma GetClient_clients: "clients s' = clients s \<Longrightarrow> GetClient s' = GetClient s"
  by (simp add: GetClient_def fun_eq_iff)

lemma GetClient_roomStep [simp]: "GetClient (roomStep msg m s) = GetClient s"
  by (rule GetClient_clients) simp


lemma GetRoom_updRoom [simp]: "GetRoom (updRoom s r x) r = Some x"
  by (simp add: GetRoom_def update_conv')

lemma GetRoom_rooms: "rooms s' = rooms s \<Longrightarrow> GetRoom s' = GetRoom s"
  by (simp add: GetRoom_def fun_eq_iff)




section \<open>Verification: file transfers\<close>


lemma handleFileChunk_rateLimiter:
  "rateLimiter (handleFileChunk s cid msg) = rateLimiter s"
  by (simp add: handleFileChunk_def Let_def split: option.splits)


section \<open>Verification: the scenarios\<close>

lemmas model_defs = proto_defs Message0_def NewTextMessage_def NewBroadcastMessage_def
  NewErrorMessage_def AddChunk_def IsComplete_def
  Second_def MaxConnections_def MaxConnectionsPerIP_def MaxMessageSize_def
  MaxNicknameLength_def MinNicknameLength_def MaxRoomNameLength_def MinRoomNameLength_def
  MaxFileSize_def MessagesPerSecond_def RoomsPerUser_def FileTransfersPerUser_def
  isAlnum_def nicknameRegex_def roomNameRegex_def ValidateNickname_def isSpace_def
  TrimSpace_def ValidateRoomName_def ValidateMessage_def ValidateFileSize_def
  NewRateLimiter_def count_def SplitHostPort_def hostOf_def ResolveTCPAddr_def
  CanConnect_def AddConnection_def decr_def RemoveConnection_def CanSendMessage_def
  CanCreateRoom_def AddRoom_rl_def CanStartFileTransfer_def AddFileTransfer_def
  RemoveFileTransfer_def RemoveUser_def
  NewClient_def setAdd_def AddRoom_def RemoveRoom_def SendMessage_def Close_def
  NewRoom_def AddMember_def RemoveMember_def IsMember_def
  NewServer_def GetClient_def GetRoom_def updClient_def updRoom_def sendTo_def sendError_def
  broadcastStep_def BroadcastMessage_def userListOf_def BroadcastUserList_def roomStep_def
  BroadcastToRoom_def RegisterClient_def GetUserRooms_def unregisterRoom_def
  UnregisterClient_def handleNewConnection_def accept_def quoted_def
  roomCreate_def roomJoin_def handleRoomMessage_def
  handleFileTransferInit_def handleFileChunk_def
  handleConnect_def handleText_def handleStatus_def HandleMessage_def ReadPump_frame_def
  ReadPump_exit_def pending_def drained_def connectFrame_def statusFrame_def createFrame_def
  joinFrame_def fileFrame_def chunkFrame_def textFrame_def clientA_def clientB_def

lemma srv_alice_state:
  "srv_alice =
     \<lparr>clients = [(''alice'', 0)], rooms = [], fileTransfers = [],
      rateLimiter = \<lparr>totalConnections = 1, connectionsByIP = [''10.0.0.1'' \<mapsto> 1],
        messageRates = Map.empty, roomsPerUser = Map.empty, transfersPerUser = Map.empty\<rparr>,
      heap = (\<lambda>cid. NewClient)
        (0 := clientA\<lparr>SendChan := Some
                  [Message0\<lparr>Type := TypeUserList, Users := [''alice:ACTIVE'']\<rparr>,
                   NewTextMessage 0 ''Server'' ''alice'' ''Welcome to the chat, alice!'',
                   NewTextMessage 0 ''Server'' [] ''Connected successfully'']\<rparr>),
      nclients = 1\<rparr>"
  by (simp add: srv_alice_def model_defs Let_def)

lemma srv_a_state:
  "srv_a =
     \<lparr>clients = [(''alice'', 0)], rooms = [], fileTransfers = [],
      rateLimiter = \<lparr>totalConnections = 1, connectionsByIP = [''10.0.0.1'' \<mapsto> 1],
        messageRates = Map.empty, roomsPerUser = Map.empty, transfersPerUser = Map.empty\<rparr>,
      heap = (\<lambda>cid. NewClient)(0 := clientA), nclients = 1\<rparr>"
  by (simp add: srv_a_def srv_alice_state drained_def clientA_def NewClient_def fun_eq_iff)

lemma srv_ab_state:
  "srv_ab =
     \<lparr>clients = [(''alice'', 0), (''bobby'', 1)], rooms = [], fileTransfers = [],
      rateLimiter = \<lparr>totalConnections = 2,
        connectionsByIP = [''10.0.0.1'' \<mapsto> 1, ''10.0.0.2'' \<mapsto> 1],
        messageRates = Map.empty, roomsPerUser = Map.empty, transfersPerUser = Map.empty\<rparr>,
      heap = (\<lambda>cid. NewClient)(0 := clientA, 1 := clientB), nclients = 2\<rparr>"
  by (simp add: srv_ab_def srv_a_state model_defs Let_def fun_eq_iff)

lemma srv_reconnect_state:
  "srv_reconnect =
     \<lparr>clients = [(''alice'', 0), (''alicia'', 0)], rooms = [], fileTransfers = [],
      rateLimiter = \<lparr>totalConnections = 1, connectionsByIP = [''10.0.0.1'' \<mapsto> 1],
        messageRates = Map.empty, roomsPerUser = Map.empty, transfersPerUser = Map.empty\<rparr>,
      heap = (\<lambda>cid. NewClient)
        (0 := clientA\<lparr>Nickname := ''alicia'', SendChan := Some
           [Message0\<lparr>Type := TypeUserList, Users := [''alicia:ACTIVE'', ''alicia:ACTIVE'']\<rparr>,
            Message0\<lparr>Type := TypeUserList, Users := [''alicia:ACTIVE'', ''alicia:ACTIVE'']\<rparr>,
            NewTextMessage 1 ''Server'' ''alicia'' ''Welcome to the chat, alicia!'',
            NewTextMessage 1 ''Server'' ''alice'' ''Connected successfully'']\<rparr>),
      nclients = 1\<rparr>"
  by (simp add: srv_reconnect_def srv_a_state model_defs Let_def)

text \<open>
  C1 on the code: a session that is registered as \<open>alice\<close> and sends a second CONNECT with
  the free nickname \<open>alicia\<close> is stored under both nicknames. When it ends, only the
  entry of its current nickname is removed: \<open>alice\<close> stays in the registry, mapped to a
  closed session.
\<close>

theorem session_under_two_nicknames:
  "clients srv_a = [(''alice'', 0)] \<and>
   clients srv_reconnect = [(''alice'', 0), (''alicia'', 0)] \<and>
   clients (ReadPump_exit srv_reconnect 0 2) = [(''alice'', 0)] \<and>
   ConnClosed (heap (ReadPump_exit srv_reconnect 0 2) 0) \<and>
   SendChan (heap (ReadPump_exit srv_reconnect 0 2) 0) = None"
proof -
  have "clients (ReadPump_exit srv_reconnect 0 2) = [(''alice'', 0)]"
    by (simp add: srv_reconnect_state ReadPump_exit_def UnregisterClient_def Let_def clientA_def split: option.splits)
  moreover have "ConnClosed (heap (ReadPump_exit srv_reconnect 0 2) 0) \<and>
      SendChan (heap (ReadPump_exit srv_reconnect 0 2) 0) = None"
    by (simp add: ReadPump_exit_def Close_def)
  ultimately show ?thesis
    by (simp add: srv_a_state srv_reconnect_state)
qed





lemma srv_file_state:
  "srv_file =
     \<lparr>clients = [(''alice'', 0), (''bobby'', 1)], rooms = [],
      fileTransfers = [(''f1'', transfer1)],
      rateLimiter = \<lparr>totalConnections = 2,
        connectionsByIP = [''10.0.0.1'' \<mapsto> 1, ''10.0.0.2'' \<mapsto> 1],
        messageRates = Map.empty, roomsPerUser = Map.empty,
        transfersPerUser = [''alice'' \<mapsto> 1]\<rparr>,
      heap = (\<lambda>cid. NewClient)(0 := clientA, 1 := clientB),
      nclients = 2\<rparr>"
  by (simp add: srv_file_def srv_ab_state model_defs transfer1_def ValidateFileName_eval Let_def fun_eq_iff)

text \<open>
  C6 on the code: Alice has one transfer in flight and her counter is 1. The chunk that
  completes the transfer removes it from the registry and sends FILE_COMPLETE, and her
  counter is still 1.
\<close>

theorem completion_keeps_transfer_counter:
  "count (transfersPerUser (rateLimiter srv_file)) ''alice'' = 1 \<and>
   fileTransfers srv_file = [(''f1'', transfer1)] \<and>
   fileTransfers (ReadPump_frame srv_file 0 chunkFrame 3 []) = [] \<and>
   SendChan (heap (ReadPump_frame srv_file 0 chunkFrame 3 []) 0) =
     Some [Message0\<lparr>Type := TypeFileComplete, FileID := ''f1'', Filename := ''a.bin''\<rparr>] \<and>
   count (transfersPerUser (rateLimiter (ReadPump_frame srv_file 0 chunkFrame 3 []))) ''alice'' = 1"
  by (simp add: srv_file_state model_defs transfer1_def Let_def)



section \<open>Verification: the statements at concrete inputs\<close>




text \<open>C9 for a connection whose CONNECT is rejected (the nickname \<open>al\<close> is too short) and
  for Alice's registered session.\<close>

theorem connection_counters_witness:
  "totalConnections (rateLimiter (ReadPump_exit
      (handleConnect (handleNewConnection NewServer ''10.0.0.1:5000'') 0 (connectFrame ''al'') 0)
      0 0)) = 1 \<and>
   totalConnections (rateLimiter srv_a) = 1 \<and>
   totalConnections (rateLimiter (ReadPump_exit srv_a 0 2)) = 0"
proof -
  have a: "fst (RegisterClient (handleNewConnection NewServer ''10.0.0.1:5000'') (nclients NewServer)
             (Content (connectFrame ''al'')) 0) \<noteq> None"
    by (simp add: RegisterClient_def ValidateNickname_def MinNicknameLength_def connectFrame_def
        Message0_def)
  have b: "Nickname (heap srv_a 0) \<noteq> [] \<and> SplitHostPort (RemoteAddr (heap srv_a 0)) \<noteq> None \<and>
    0 < totalConnections (rateLimiter srv_a) \<and>
    0 < count (connectionsByIP (rateLimiter srv_a)) (hostOf (RemoteAddr (heap srv_a 0)))"
    by (simp add: srv_a_state clientA_def SplitHostPort_def hostOf_def count_def)
  have n: "nclients NewServer = 0" by (simp add: NewServer_def)
  have c5: "rateLimiter (ReadPump_exit
         (handleConnect (handleNewConnection NewServer ''10.0.0.1:5000'') (nclients NewServer)
            (connectFrame ''al'') 0) (nclients NewServer) 0) =
        AddConnection (rateLimiter NewServer) ''10.0.0.1:5000''"
    using connection_counters [of NewServer "''10.0.0.1:5000''" 0 0 "connectFrame ''al''",
        THEN conjunct2, THEN conjunct2, THEN conjunct2, THEN conjunct2, THEN conjunct1,
        THEN mp, OF a] .
  have c6: "totalConnections (rateLimiter (ReadPump_exit srv_a 0 2)) =
        totalConnections (rateLimiter srv_a) - 1"
    using connection_counters [of srv_a "''10.0.0.1:5000''" 0 2 "connectFrame ''al''",
        THEN conjunct2, THEN conjunct2, THEN conjunct2, THEN conjunct2, THEN conjunct2,
        THEN mp, OF b]
    by simp
  show ?thesis
    using c5 c6 by (simp add: n AddConnection_def NewServer_def NewRateLimiter_def srv_a_state Let_def)
qed


text \<open>C3 (amended) for Alice inside one counting window.\<close>

theorem rate_limit_counting_window_witness:
  "messageRates (rateLimiter srv_limit) ''alice'' = Some \<lparr>messages = 10, lastReset = 0\<rparr> \<and>
   accepted (rateLimiter srv_limit) ''alice'' [100, 200, 300] = 0 \<and>
   accepted (snd (CanSendMessage NewRateLimiter ''alice'' 0)) ''alice'' (replicate 11 500000000) \<le> 10 \<and>
   SendChan (heap (ReadPump_frame srv_limit 0 textFrame 500000000 []) 0) =
     Some [NewErrorMessage 500000000 ''Server'' ''alice''
             ''message rate limit exceeded (10 messages per second)''] \<and>
   heap (ReadPump_frame srv_limit 0 textFrame 500000000 []) 1 = heap srv_limit 1"
proof -
  let ?u = "\<lparr>messages = 1, lastReset = 0\<rparr>"
  let ?rl = "snd (CanSendMessage NewRateLimiter ''alice'' 0)"
  have a: "messageRates ?rl ''alice'' = Some ?u \<and> 0 \<le> messages ?u \<and>
           (\<forall>t\<in>set (replicate 11 500000000). t - lastReset ?u < Second)"
    by (simp add: CanSendMessage_def NewRateLimiter_def Second_def MessagesPerSecond_def)
  let ?v = "\<lparr>messages = 10, lastReset = 0\<rparr>"
  have b: "Type textFrame = TypeText \<and>
     messageRates (rateLimiter srv_limit) (Nickname (heap srv_limit 0)) = Some ?v \<and>
     10 \<le> messages ?v \<and> 500000000 - lastReset ?v < Second"
    by (simp add: srv_limit_def srv_ab_state clientA_def textFrame_def Message0_def Second_def)
  note t = rate_limit_counting_window
    [of ?rl "''alice''" ?u "replicate 11 500000000" textFrame srv_limit 0 ?v 500000000 "[]"]
  have 1: "accepted ?rl ''alice'' (replicate 11 500000000) \<le> 10"
    using t [THEN conjunct1, THEN mp, OF a] .
  have 2: "ReadPump_frame srv_limit 0 textFrame 500000000 [] =
        sendTo srv_limit 0 (NewErrorMessage 500000000 ''Server'' (Nickname (heap srv_limit 0))
                        ''message rate limit exceeded (10 messages per second)'')"
    using t [THEN conjunct2, THEN mp, OF b] by simp
  have 3: "accepted (rateLimiter srv_limit) ''alice'' [100, 200, 300] = 0"
    by (simp add: srv_limit_def srv_ab_state CanSendMessage_def Second_def MessagesPerSecond_def)
  show ?thesis
    using 1 3 by (simp add: 2) (simp add: srv_limit_def srv_ab_state clientA_def SendMessage_def)
qed



end
